theory Spec2Isabelle
  imports Complex_Main "HOL-Library.Sublist"
begin

section \<open>Python values used by \<open>Rs_gh_actions.py\<close>\<close>

text \<open>
  The script is a sequence of calls to external tools (\<open>git\<close>, \<open>gh\<close>) whose
  results steer what is called next. The model threads an explicit state: the
  global flag, the clock, everything outside the process, and a chronological log
  of what the process printed and which child processes it started.

  Python's \<open>str\<close> is modelled as \<open>string\<close>, each \<open>char\<close> standing for the code
  point of the same number (0 to 255). The character classes below are Python's on
  that range. Texts of the script that lie outside it are printed lines, which
  are the constructors of \<open>msg\<close>, except the error text of line 97, which
  the environment supplies.
\<close>

datatype exn = SystemExit int | ValueError | KeyError | TypeError | IndexError

text \<open>\<open>str.isspace\<close> on code points below 256.\<close>

definition py_isspace :: "char \<Rightarrow> bool" where
  "py_isspace c = ((of_char c :: nat) \<in> {9, 10, 11, 12, 13, 28, 29, 30, 31, 32, 133, 160})"

definition py_strip :: "string \<Rightarrow> string" where
  "py_strip s = rev (dropWhile py_isspace (rev (dropWhile py_isspace s)))"

text \<open>
  \<open>str.isdigit\<close>: the string is not empty and every character is a digit; below
  256 these are \<open>0\<close> to \<open>9\<close> and the superscripts two, three and one.
\<close>

definition py_isdigit_char :: "char \<Rightarrow> bool" where
  "py_isdigit_char c = ((48 \<le> (of_char c :: nat) \<and> (of_char c :: nat) \<le> 57)
      \<or> (of_char c :: nat) \<in> {178, 179, 185})"

definition py_isdigit :: "string \<Rightarrow> bool" where
  "py_isdigit s = (s \<noteq> [] \<and> list_all py_isdigit_char s)"

text \<open>
  \<open>int(s)\<close> for an \<open>s\<close> that passed \<open>isdigit\<close>: the decimal value, or
  \<open>ValueError\<close> when a superscript digit occurs (it is a digit for \<open>isdigit\<close> but
  not a decimal for \<open>int\<close>). The interpreter's limit on the number of digits is not
  part of the model.
\<close>

fun decimal_value :: "nat \<Rightarrow> string \<Rightarrow> nat option" where
  "decimal_value acc [] = Some acc"
| "decimal_value acc (c # cs) =
     (if 48 \<le> (of_char c :: nat) \<and> (of_char c :: nat) \<le> 57
      then decimal_value (10 * acc + (of_char c - 48)) cs
      else None)"

definition py_int :: "string \<Rightarrow> exn + int" where
  "py_int s = (case decimal_value 0 s of None \<Rightarrow> Inl ValueError | Some n \<Rightarrow> Inr (int n))"

text \<open>\<open>str.lower\<close> on code points below 256 (the multiplication sign 215 has no case).\<close>

definition py_lower_char :: "char \<Rightarrow> char" where
  "py_lower_char c =
     (let n = (of_char c :: nat) in
      if (65 \<le> n \<and> n \<le> 90) \<or> (192 \<le> n \<and> n \<le> 222 \<and> n \<noteq> 215)
      then char_of (n + 32) else c)"

definition py_lower :: "string \<Rightarrow> string" where
  "py_lower s = map py_lower_char s"

text \<open>\<open>needle in hay\<close> for two strings.\<close>

fun py_in :: "string \<Rightarrow> string \<Rightarrow> bool" where
  "py_in needle [] = (needle = [])"
| "py_in needle (h # hs) = (take (length needle) (h # hs) = needle \<or> py_in needle hs)"

text \<open>\<open>sep.join(parts)\<close>.\<close>

fun py_join :: "string \<Rightarrow> string list \<Rightarrow> string" where
  "py_join sep [] = []"
| "py_join sep [x] = x"
| "py_join sep (x # y # ys) = x @ sep @ py_join sep (y # ys)"

text \<open>Decimal rendering of a natural number, and two-digit zero padding.\<close>

fun show_nat :: "nat \<Rightarrow> string" where
  "show_nat n = (if n < 10 then [char_of (48 + n)]
                 else show_nat (n div 10) @ [char_of (48 + n mod 10)])"

declare show_nat.simps [simp del]

definition show_int :: "int \<Rightarrow> string" where
  "show_int i = (if i < 0 then CHR ''-'' # show_nat (nat (- i)) else show_nat (nat i))"

definition pad2 :: "nat \<Rightarrow> string" where
  "pad2 n = (if n < 10 then CHR ''0'' # show_nat n else show_nat n)"

subsection \<open>Local time and \<open>strftime\<close>\<close>

record datetime =
  year :: nat
  month :: nat
  day :: nat
  hour :: nat
  minute :: nat
  second :: nat

text \<open>
  The directives the script uses. \<open>%Y\<close> is the year in decimal, four digits for
  the years 1000 to 9999; any other directive is left as it stands.
\<close>

definition directive :: "char \<Rightarrow> datetime \<Rightarrow> string" where
  "directive d dt =
     (if d = CHR ''Y'' then show_nat (year dt)
      else if d = CHR ''m'' then pad2 (month dt)
      else if d = CHR ''d'' then pad2 (day dt)
      else if d = CHR ''H'' then pad2 (hour dt)
      else if d = CHR ''M'' then pad2 (minute dt)
      else if d = CHR ''S'' then pad2 (second dt)
      else [CHR ''%'', d])"

fun strftime :: "string \<Rightarrow> datetime \<Rightarrow> string" where
  "strftime [] dt = []"
| "strftime [c] dt = [c]"
| "strftime (c # d # fs) dt =
     (if c = CHR ''%'' then directive d dt @ strftime fs dt
      else c # strftime (d # fs) dt)"

subsection \<open>Decoded JSON\<close>

datatype pyfloat = Finite rat | Infinite bool | NaN

datatype json =
    JNull
  | JBool bool
  | JInt int
  | JFloat pyfloat
  | JStr string
  | JArr "json list"
  | JObj "(string \<times> json) list"

text \<open>Truth value of a decoded document (\<open>if runs\<close>, \<open>if not runs\<close>).\<close>

fun truthy :: "json \<Rightarrow> bool" where
  "truthy JNull = False"
| "truthy (JBool b) = b"
| "truthy (JInt i) = (i \<noteq> 0)"
| "truthy (JFloat (Finite q)) = (q \<noteq> 0)"
| "truthy (JFloat _) = True"
| "truthy (JStr s) = (s \<noteq> [])"
| "truthy (JArr xs) = (xs \<noteq> [])"
| "truthy (JObj kvs) = (kvs \<noteq> [])"

text \<open>
  \<open>v[0]\<close>: the first element of a list, the first character of a string
  (\<open>IndexError\<close> when there is none); a dict decoded from JSON has string keys only, so \<open>0\<close> is a missing key;
  numbers and \<open>True\<close> cannot be subscripted.
\<close>

fun subscript_zero :: "json \<Rightarrow> exn + json" where
  "subscript_zero (JArr (x # xs)) = Inr x"
| "subscript_zero (JArr []) = Inl IndexError"
| "subscript_zero (JStr (c # cs)) = Inr (JStr [c])"
| "subscript_zero (JStr []) = Inl IndexError"
| "subscript_zero (JObj kvs) = Inl KeyError"
| "subscript_zero _ = Inl TypeError"

text \<open>\<open>v["key"]\<close>: only a dict can be subscripted by a string.\<close>

fun subscript_key :: "json \<Rightarrow> string \<Rightarrow> exn + json" where
  "subscript_key (JObj kvs) k = (case map_of kvs k of None \<Rightarrow> Inl KeyError | Some v \<Rightarrow> Inr v)"
| "subscript_key _ k = Inl TypeError"

section \<open>Console output and child processes\<close>

datatype color = HEADER | BLUE | CYAN | GREEN | YELLOW | RED | ENDC | BOLD

text \<open>
  The lines the script prints. A line that the script writes in ASCII characters,
  or that is the output of a tool, is \<open>Text\<close> with its characters; every other
  line is a constructor named after what it says, carrying the values interpolated
  into it.
\<close>

datatype msg =
    Text string
  | DryRunWouldExec string      \<comment> \<open>lines 84, 107; the joined command\<close>
  | ExecFailed string           \<comment> \<open>line 114\<close>
  | GhNotInstalled              \<comment> \<open>line 122\<close>
  | GhInstallHint               \<comment> \<open>line 123\<close>
  | GhNotLoggedIn               \<comment> \<open>line 128\<close>
  | GhLoginHint                 \<comment> \<open>line 129\<close>
  | RepoDirMissing              \<comment> \<open>line 136\<close>
  | ExpectedPath "string list"  \<comment> \<open>line 137\<close>
  | SubmoduleDirMissing         \<comment> \<open>line 141\<close>
  | TryingSubmoduleInit         \<comment> \<open>line 142\<close>
  | SubmoduleInitFailed         \<comment> \<open>line 145\<close>
  | Running string              \<comment> \<open>lines 181, 215, 222, 240, 359; the command shown\<close>
  | GitPullFailed string        \<comment> \<open>line 188\<close>
  | ProcessingRepo string       \<comment> \<open>line 205\<close>
  | RepoPath "string list"      \<comment> \<open>line 206\<close>
  | NoChangesSkip               \<comment> \<open>line 211\<close>
  | GitAddFailed string         \<comment> \<open>line 218\<close>
  | NothingToCommit             \<comment> \<open>line 226\<close>
  | GitCommitFailed string      \<comment> \<open>line 228\<close>
  | RemoteAheadPulling          \<comment> \<open>line 234\<close>
  | ResolveConflictsHint        \<comment> \<open>line 236\<close>
  | GitPushFailed string        \<comment> \<open>line 247\<close>
  | RejectedHint                \<comment> \<open>line 249\<close>
  | PushOk                      \<comment> \<open>line 251\<close>
  | WaitingForWorkflow int      \<comment> \<open>line 266\<close>
  | WorkflowStarted string      \<comment> \<open>line 284\<close>
  | WaitTimedOut                \<comment> \<open>line 291\<close>
  | CommitMessageIs string      \<comment> \<open>line 310\<close>
  | DryRunBanner                \<comment> \<open>line 313\<close>
  | HbbCommonFailed             \<comment> \<open>line 318\<close>
  | RsClientFailed              \<comment> \<open>line 324\<close>
  | AllReposDone                \<comment> \<open>line 327\<close>
  | Step1Commit                 \<comment> \<open>line 340\<close>
  | Step2Tag string             \<comment> \<open>line 347\<close>
  | Step3Trigger                \<comment> \<open>line 350\<close>
  | TriggerFailed string        \<comment> \<open>line 363\<close>
  | BuildTriggered              \<comment> \<open>line 366\<close>
  | ViewDetailsHint string      \<comment> \<open>line 373\<close>
  | MonitorHint string          \<comment> \<open>line 375\<close>
  | QueryingStatus              \<comment> \<open>line 384\<close>
  | QueryFailed string          \<comment> \<open>lines 396, 438\<close>
  | NoRunsFound                 \<comment> \<open>line 400\<close>
  | Recent5Header               \<comment> \<open>line 403\<close>
  | FollowingLatest             \<comment> \<open>line 410\<close>
  | SearchingFailure            \<comment> \<open>line 424\<close>
  | ParseFailed                 \<comment> \<open>line 444\<close>
  | NoFailedRuns                \<comment> \<open>line 448\<close>
  | FoundFailedRun              \<comment> \<open>line 456\<close>
  | TitleIs string              \<comment> \<open>line 458\<close>
  | TimeIs string               \<comment> \<open>line 459\<close>
  | FetchingFailedJobs          \<comment> \<open>line 462\<close>
  | FailedLogFollows            \<comment> \<open>line 469\<close>

type_synonym path = "string list"

text \<open>
  What happened, in order: a coloured line, a plain line, a call of
  \<open>subprocess.run\<close> (command, working directory, whether output is captured,
  timeout), a call of \<open>time.sleep\<close>.
\<close>

datatype event =
    ColorPrint msg color
  | Print msg
  | Subprocess "string list" "path option" bool "int option"
  | Sleep nat

text \<open>
  How \<open>subprocess.run\<close> ended: the child's return code with its raw output, the
  timeout exception, or any other exception; the last two carry the exception's
  text.
\<close>

datatype proc = Completed int string string | TimeoutExpired string | Raised string

text \<open>
  Everything the script takes from outside: where it is installed, the operating
  system's process and file services acting on the outside world \<open>'w\<close> (a child
  process also takes time, in seconds), the JSON decoder (\<open>None\<close> for
  \<open>JSONDecodeError\<close>), the local calendar time of a clock reading, the text of
  line 97 for a timeout in seconds (its characters are outside the modelled range),
  and \<open>str\<close> of floats, lists and dicts.
\<close>

record 'w env =
  script_dir :: path
  script_name :: string
  subprocess_run :: "string list \<Rightarrow> path option \<Rightarrow> bool \<Rightarrow> int option \<Rightarrow> 'w \<Rightarrow> proc \<times> nat \<times> 'w"
  path_exists :: "path \<Rightarrow> 'w \<Rightarrow> bool"
  json_loads :: "string \<Rightarrow> json option"
  localtime :: "nat \<Rightarrow> datetime"
  timeout_text :: "int \<Rightarrow> string"
  py_repr :: "json \<Rightarrow> string"

record 'w state =
  DRY_RUN :: bool
  now :: nat
  world :: 'w
  trace :: "event list"

definition py_str :: "'w env \<Rightarrow> json \<Rightarrow> string" where
  "py_str env v =
     (case v of
        JStr s \<Rightarrow> s
      | JInt i \<Rightarrow> show_int i
      | JNull \<Rightarrow> ''None''
      | JBool b \<Rightarrow> (if b then ''True'' else ''False'')
      | _ \<Rightarrow> py_repr env v)"

section \<open>Configuration\<close>

definition RS_CLIENT_DIR :: "'w env \<Rightarrow> path" where
  "RS_CLIENT_DIR env = script_dir env"

definition HBB_COMMON_DIR :: "'w env \<Rightarrow> path" where
  "HBB_COMMON_DIR env = RS_CLIENT_DIR env @ [''libs'', ''hbb_common'']"

definition REPO_OWNER :: string where "REPO_OWNER = ''Jiang1756''"
definition REPO_NAME :: string where "REPO_NAME = ''rs-client''"
definition WORKFLOW_FILE :: string where "WORKFLOW_FILE = ''flutter-nightly.yml''"
definition DEFAULT_CMD_TIMEOUT :: int where "DEFAULT_CMD_TIMEOUT = 300"
definition GIT_PUSH_TIMEOUT :: int where "GIT_PUSH_TIMEOUT = 600"

definition repo_slug :: string where
  "repo_slug = REPO_OWNER @ ''/'' @ REPO_NAME"

section \<open>The process runner\<close>

definition color_print :: "msg \<Rightarrow> color \<Rightarrow> 'w state \<Rightarrow> 'w state" where
  "color_print m c s = s\<lparr>trace := trace s @ [ColorPrint m c]\<rparr>"

definition print :: "msg \<Rightarrow> 'w state \<Rightarrow> 'w state" where
  "print m s = s\<lparr>trace := trace s @ [Print m]\<rparr>"

definition sleep :: "nat \<Rightarrow> 'w state \<Rightarrow> 'w state" where
  "sleep n s = s\<lparr>now := now s + n, trace := trace s @ [Sleep n]\<rparr>"

text \<open>
  The call of \<open>subprocess.run\<close> itself: the outside world moves on, the clock
  advances by the time the child took, and the call is logged.
\<close>

definition spawn ::
  "'w env \<Rightarrow> string list \<Rightarrow> path option \<Rightarrow> bool \<Rightarrow> int option \<Rightarrow> 'w state \<Rightarrow> proc \<times> 'w state" where
  "spawn env cmd cwd capture timeout s =
     (case subprocess_run env cmd cwd capture timeout (world s) of
        (res, elapsed, w') \<Rightarrow>
          (res, s\<lparr>now := now s + elapsed, world := w',
                  trace := trace s @ [Subprocess cmd cwd capture timeout]\<rparr>))"

text \<open>
  \<open>run_cmd\<close> (lines 68 to 99). Every call site leaves \<open>capture\<close> at its default
  \<open>True\<close>, so the parameter is not carried.
\<close>

definition run_cmd ::
  "'w env \<Rightarrow> string list \<Rightarrow> path option \<Rightarrow> int \<Rightarrow> 'w state \<Rightarrow> (int \<times> string \<times> string) \<times> 'w state" where
  "run_cmd env cmd cwd timeout s =
     (if DRY_RUN s then
        ((0, ''[dry-run]'', ''''), color_print (DryRunWouldExec (py_join '' '' cmd)) YELLOW s)
      else
        (case spawn env cmd cwd True (Some timeout) s of
           (Completed rc out err, s') \<Rightarrow> ((rc, py_strip out, py_strip err), s')
         | (TimeoutExpired e, s') \<Rightarrow> ((- 1, '''', timeout_text env timeout), s')
         | (Raised e, s') \<Rightarrow> ((- 1, '''', e), s')))"

text \<open>\<open>run_cmd_live\<close> (lines 102 to 115).\<close>

definition run_cmd_live ::
  "'w env \<Rightarrow> string list \<Rightarrow> path option \<Rightarrow> 'w state \<Rightarrow> int \<times> 'w state" where
  "run_cmd_live env cmd cwd s =
     (if DRY_RUN s then
        (0, color_print (DryRunWouldExec (py_join '' '' cmd)) YELLOW s)
      else
        (case spawn env cmd cwd False None s of
           (Completed rc out err, s') \<Rightarrow> (rc, s')
         | (TimeoutExpired e, s') \<Rightarrow> (- 1, color_print (ExecFailed e) RED s')
         | (Raised e, s') \<Rightarrow> (- 1, color_print (ExecFailed e) RED s')))"

section \<open>Pre-flight checks and timestamps\<close>

text \<open>\<open>check_gh_installed\<close> (lines 118 to 130); \<open>sys.exit(1)\<close> is \<open>SystemExit 1\<close>.\<close>

definition check_gh_installed :: "'w env \<Rightarrow> 'w state \<Rightarrow> (exn + unit) \<times> 'w state" where
  "check_gh_installed env s =
     (case run_cmd env [''gh'', ''--version''] None DEFAULT_CMD_TIMEOUT s of
        ((code, _, _), s) \<Rightarrow>
          if code \<noteq> 0 then
            (Inl (SystemExit 1), color_print GhInstallHint YELLOW (color_print GhNotInstalled RED s))
          else
            (case run_cmd env [''gh'', ''auth'', ''status''] None DEFAULT_CMD_TIMEOUT s of
               ((code, _, _), s) \<Rightarrow>
                 if code \<noteq> 0 then
                   (Inl (SystemExit 1), color_print GhLoginHint YELLOW (color_print GhNotLoggedIn RED s))
                 else (Inr (), s)))"

text \<open>\<open>check_repo_exists\<close> (lines 133 to 146).\<close>

definition check_repo_exists :: "'w env \<Rightarrow> 'w state \<Rightarrow> (exn + unit) \<times> 'w state" where
  "check_repo_exists env s =
     (if \<not> path_exists env (RS_CLIENT_DIR env) (world s) then
        (Inl (SystemExit 1),
         color_print (ExpectedPath (RS_CLIENT_DIR env)) YELLOW (color_print RepoDirMissing RED s))
      else if \<not> path_exists env (HBB_COMMON_DIR env) (world s) then
        (let s = color_print SubmoduleDirMissing YELLOW s;
             s = color_print TryingSubmoduleInit CYAN s
         in case run_cmd_live env [''git'', ''submodule'', ''update'', ''--init'']
                   (Some (RS_CLIENT_DIR env)) s of
              (code, s) \<Rightarrow>
                if code \<noteq> 0 then (Inl (SystemExit 1), color_print SubmoduleInitFailed RED s)
                else (Inr (), s))
      else (Inr (), s))"

definition get_timestamp :: "'w env \<Rightarrow> 'w state \<Rightarrow> string" where
  "get_timestamp env s = strftime ''%Y%m%d-%H%M%S'' (localtime env (now s))"

definition get_tag_timestamp :: "'w env \<Rightarrow> 'w state \<Rightarrow> string" where
  "get_tag_timestamp env s = strftime ''%Y-%m%d-%H%M'' (localtime env (now s))"

section \<open>Repository sync\<close>

text \<open>\<open>git_has_changes\<close> (lines 159 to 162).\<close>

definition git_has_changes :: "'w env \<Rightarrow> path \<Rightarrow> 'w state \<Rightarrow> bool \<times> 'w state" where
  "git_has_changes env repo_dir s =
     (case run_cmd env [''git'', ''status'', ''--porcelain''] (Some repo_dir) DEFAULT_CMD_TIMEOUT s of
        ((code, stdout, _), s) \<Rightarrow> (code = 0 \<and> length stdout > 0, s))"

text \<open>
  \<open>git_check_remote_ahead\<close> (lines 165 to 176). The result of the fetch is
  dropped. \<open>int\<close> is not guarded by a handler, so its \<open>ValueError\<close> leaves the
  function.
\<close>

definition git_check_remote_ahead :: "'w env \<Rightarrow> path \<Rightarrow> 'w state \<Rightarrow> (exn + bool) \<times> 'w state" where
  "git_check_remote_ahead env repo_dir s =
     (case run_cmd env [''git'', ''fetch''] (Some repo_dir) 60 s of
        (_, s) \<Rightarrow>
          (case run_cmd env [''git'', ''rev-list'', ''HEAD..@'' @ ''{u}'', ''--count'']
                  (Some repo_dir) DEFAULT_CMD_TIMEOUT s of
             ((code, stdout, _), s) \<Rightarrow>
               if code = 0 \<and> py_isdigit stdout then
                 (case py_int stdout of
                    Inl e \<Rightarrow> (Inl e, s)
                  | Inr n \<Rightarrow> (Inr (n > 0), s))
               else (Inr False, s)))"

text \<open>\<open>git_pull\<close> (lines 179 to 190).\<close>

definition git_pull :: "'w env \<Rightarrow> path \<Rightarrow> 'w state \<Rightarrow> bool \<times> 'w state" where
  "git_pull env repo_dir s =
     (let s = color_print (Running ''git pull --rebase'') BLUE s
      in case run_cmd env [''git'', ''pull'', ''--rebase''] (Some repo_dir) 120 s of
           ((code, stdout, stderr), s) \<Rightarrow>
             if code \<noteq> 0 then (False, color_print (GitPullFailed stderr) RED s)
             else (True, s))"

text \<open>
  \<open>git_commit_push\<close> (lines 193 to 253), cut at the source's own comments:
  the banner (lines 204 to 207), the push (lines 239 to 253), the check of the
  remote with the rebase-pull followed by the push (lines 232 to 253), and the
  whole function. The source's early returns are the branches that end in a
  result.
\<close>

definition announce_repo :: "path \<Rightarrow> string \<Rightarrow> 'w state \<Rightarrow> 'w state" where
  "announce_repo repo_dir repo_name s =
     (let s = color_print (Text (CHR 0x0A # replicate 50 (CHR ''=''))) CYAN s;
          s = color_print (ProcessingRepo repo_name) BOLD s;
          s = color_print (RepoPath repo_dir) CYAN s
      in color_print (Text (replicate 50 (CHR ''=''))) CYAN s)"

definition push_step :: "'w env \<Rightarrow> path \<Rightarrow> 'w state \<Rightarrow> (exn + bool) \<times> 'w state" where
  "push_step env repo_dir s =
     (let s = color_print (Running ''git push'') BLUE s
      in case run_cmd env [''git'', ''push''] (Some repo_dir) GIT_PUSH_TIMEOUT s of
        ((code, stdout, stderr), s) \<Rightarrow>
          if code \<noteq> 0 then
            (let s = color_print (GitPushFailed stderr) RED s;
                 s = (if py_in ''rejected'' (py_lower stderr)
                      then color_print RejectedHint YELLOW s else s)
             in (Inr False, s))
          else (Inr True, color_print PushOk GREEN s))"

definition pull_push_step :: "'w env \<Rightarrow> path \<Rightarrow> bool \<Rightarrow> 'w state \<Rightarrow> (exn + bool) \<times> 'w state" where
  "pull_push_step env repo_dir auto_pull s =
     (case (if auto_pull then git_check_remote_ahead env repo_dir s else (Inr False, s)) of
        (Inl e, s) \<Rightarrow> (Inl e, s)
      | (Inr ahead, s) \<Rightarrow>
          if ahead then
            (case git_pull env repo_dir (color_print RemoteAheadPulling YELLOW s) of
               (pulled, s) \<Rightarrow>
                 if \<not> pulled then (Inr False, color_print ResolveConflictsHint YELLOW s)
                 else push_step env repo_dir s)
          else push_step env repo_dir s)"

definition git_commit_push ::
  "'w env \<Rightarrow> path \<Rightarrow> string \<Rightarrow> string \<Rightarrow> bool \<Rightarrow> 'w state \<Rightarrow> (exn + bool) \<times> 'w state" where
  "git_commit_push env repo_dir repo_name commit_msg auto_pull s =
     (case git_has_changes env repo_dir (announce_repo repo_dir repo_name s) of
        (changed, s) \<Rightarrow>
          if \<not> changed then (Inr True, color_print NoChangesSkip YELLOW s)
          else
            (case run_cmd env [''git'', ''add'', ''.''] (Some repo_dir) DEFAULT_CMD_TIMEOUT
                    (color_print (Running ''git add .'') BLUE s) of
               ((code, _, stderr), s) \<Rightarrow>
                 if code \<noteq> 0 then (Inr False, color_print (GitAddFailed stderr) RED s)
                 else
                   (case run_cmd env [''git'', ''commit'', ''-m'', commit_msg] (Some repo_dir)
                           DEFAULT_CMD_TIMEOUT
                           (color_print
                              (Running (''git commit -m '' @ [CHR 0x22] @ commit_msg @ [CHR 0x22]))
                              BLUE s) of
                      ((code, stdout, stderr), s) \<Rightarrow>
                        if code \<noteq> 0 then
                          (if py_in ''nothing to commit'' stderr \<or> py_in ''nothing to commit'' stdout
                           then (Inr True, color_print NothingToCommit YELLOW s)
                           else (Inr False, color_print (GitCommitFailed stderr) RED s))
                        else
                          pull_push_step env repo_dir auto_pull (color_print (Text stdout) GREEN s))))"

section \<open>Waiting for the workflow run\<close>

definition run_list_latest :: "string list" where
  "run_list_latest =
     [''gh'', ''run'', ''list'', ''-R'', repo_slug, ''-w'', WORKFLOW_FILE, ''-L'', ''1'',
      ''--json'', ''databaseId,status,createdAt'']"

text \<open>
  One pass through the body of the loop (lines 270 to 287): the query and what is
  read off its answer. \<open>Inr (Some id)\<close> is the \<open>return\<close> of line 285,
  \<open>Inr None\<close> reaches the \<open>sleep\<close>. Only \<open>JSONDecodeError\<close> is handled; a
  failing subscript leaves the function.
\<close>

definition poll_runs :: "'w env \<Rightarrow> 'w state \<Rightarrow> (exn + string option) \<times> 'w state" where
  "poll_runs env s =
     (case run_cmd env run_list_latest (Some (RS_CLIENT_DIR env)) DEFAULT_CMD_TIMEOUT s of
        ((code, stdout, _), s) \<Rightarrow>
          if code = 0 \<and> stdout \<noteq> [] then
            (case json_loads env stdout of
               None \<Rightarrow> (Inr None, s)
             | Some runs \<Rightarrow>
                 if \<not> truthy runs then (Inr None, s)
                 else
                   (case subscript_zero runs of
                      Inl e \<Rightarrow> (Inl e, s)
                    | Inr r \<Rightarrow>
                        (case subscript_key r ''status'' of
                           Inl e \<Rightarrow> (Inl e, s)
                         | Inr st \<Rightarrow>
                             if st = JStr ''queued'' \<or> st = JStr ''in_progress'' then
                               (case subscript_key r ''databaseId'' of
                                  Inl e \<Rightarrow> (Inl e, s)
                                | Inr run_id \<Rightarrow>
                                    (Inr (Some (py_str env run_id)),
                                     color_print (WorkflowStarted (py_str env run_id)) GREEN s))
                             else (Inr None, s))))
          else (Inr None, s))"

text \<open>
  The loop of lines 268 to 289, from the reading \<open>start_time\<close> of the clock on.
  Each pass that does not return sleeps two seconds, so the clock moves towards the
  bound and the loop ends.
\<close>

function wait_loop ::
  "'w env \<Rightarrow> nat \<Rightarrow> int \<Rightarrow> 'w state \<Rightarrow> (exn + string option) \<times> 'w state" where
  "wait_loop env start_time max_wait s =
     (if int (now s) - int start_time < max_wait then
        (case poll_runs env s of
           (Inr None, s1) \<Rightarrow> wait_loop env start_time max_wait (sleep 2 s1)
         | (r, s1) \<Rightarrow> (r, s1))
      else (Inr None, s))"
  by pat_completeness auto
termination
  apply (relation "measure (\<lambda>(env, start_time, max_wait, s).
            nat (int start_time + max_wait - int (now s)))")
   apply simp
  apply (auto simp: sleep_def poll_runs_def run_cmd_def spawn_def color_print_def
              split: if_splits prod.splits proc.splits option.splits sum.splits)
  done

declare wait_loop.simps [simp del]

text \<open>\<open>wait_for_workflow_start\<close> (lines 256 to 292).\<close>

definition wait_for_workflow_start ::
  "'w env \<Rightarrow> int \<Rightarrow> 'w state \<Rightarrow> (exn + string option) \<times> 'w state" where
  "wait_for_workflow_start env max_wait s =
     (let s = color_print (WaitingForWorkflow max_wait) CYAN s;
          start_time = now s
      in case wait_loop env start_time max_wait s of
           (Inr None, s) \<Rightarrow> (Inr None, color_print WaitTimedOut YELLOW s)
         | (r, s) \<Rightarrow> (r, s))"

section \<open>Commands\<close>

text \<open>The parsed command line: \<open>-m\<close>, \<open>-t\<close>, \<open>--dry-run\<close>, \<open>-f\<close>.\<close>

record args =
  message :: "string option"
  tag :: "string option"
  dry_run :: bool
  follow :: bool

text \<open>\<open>x if x else d\<close> for an optional string: \<open>None\<close> and the empty string are false.\<close>

definition or_else :: "string option \<Rightarrow> string \<Rightarrow> string" where
  "or_else x d = (case x of None \<Rightarrow> d | Some v \<Rightarrow> if v \<noteq> [] then v else d)"

text \<open>
  \<open>cmd_push\<close> (lines 299 to 328). \<open>push_preflight\<close> is its opening, lines 301
  to 313: the flag, the two checks and the commit message, which it hands on.
\<close>

definition push_preflight :: "'w env \<Rightarrow> args \<Rightarrow> 'w state \<Rightarrow> (exn + string) \<times> 'w state" where
  "push_preflight env a s =
     (case check_gh_installed env (s\<lparr>DRY_RUN := dry_run a\<rparr>) of
        (Inl e, s) \<Rightarrow> (Inl e, s)
      | (Inr _, s) \<Rightarrow>
          (case check_repo_exists env s of
             (Inl e, s) \<Rightarrow> (Inl e, s)
           | (Inr _, s) \<Rightarrow>
               (let timestamp = get_timestamp env s;
                    commit_msg = or_else (message a) (''build: auto commit '' @ timestamp);
                    s = color_print (CommitMessageIs commit_msg) HEADER s
                in (Inr commit_msg,
                    if DRY_RUN s then color_print DryRunBanner YELLOW s else s))))"

definition cmd_push :: "'w env \<Rightarrow> args \<Rightarrow> 'w state \<Rightarrow> (exn + int) \<times> 'w state" where
  "cmd_push env a s =
     (case push_preflight env a s of
        (Inl e, s) \<Rightarrow> (Inl e, s)
      | (Inr commit_msg, s) \<Rightarrow>
          (case git_commit_push env (HBB_COMMON_DIR env) ''hbb_common'' commit_msg True s of
             (Inl e, s) \<Rightarrow> (Inl e, s)
           | (Inr success, s) \<Rightarrow>
               if \<not> success then (Inr 1, color_print HbbCommonFailed RED s)
               else
                 (case git_commit_push env (RS_CLIENT_DIR env) ''rs-client'' commit_msg True s of
                    (Inl e, s) \<Rightarrow> (Inl e, s)
                  | (Inr success, s) \<Rightarrow>
                      if \<not> success then (Inr 1, color_print RsClientFailed RED s)
                      else (Inr 0, color_print AllReposDone GREEN s))))"

definition workflow_run :: "string \<Rightarrow> string list" where
  "workflow_run t =
     [''gh'', ''workflow'', ''run'', WORKFLOW_FILE, ''-R'', repo_slug, ''-f'', ''upload-tag='' @ t]"

text \<open>
  \<open>cmd_build\<close> (lines 331 to 377). \<open>announce_trigger\<close> is what lines 347 to 359
  print before the trigger, \<open>confirm_start\<close> is lines 366 to 373 after it.
\<close>

definition announce_trigger :: "string \<Rightarrow> 'w state \<Rightarrow> 'w state" where
  "announce_trigger t s =
     (let s = color_print (Step2Tag t) HEADER s;
          s = color_print Step3Trigger HEADER s;
          s = color_print (Text (''Workflow: '' @ WORKFLOW_FILE)) CYAN s
      in color_print (Running (py_join '' '' (workflow_run t))) BLUE s)"

definition confirm_start :: "'w env \<Rightarrow> string \<Rightarrow> 'w state \<Rightarrow> (exn + unit) \<times> 'w state" where
  "confirm_start env t s =
     (let s = color_print BuildTriggered GREEN s;
          s = color_print (Text (''Tag: '' @ t)) CYAN s
      in if \<not> DRY_RUN s then
           (case wait_for_workflow_start env 30 s of
              (Inl e, s) \<Rightarrow> (Inl e, s)
            | (Inr None, s) \<Rightarrow> (Inr (), s)
            | (Inr (Some run_id), s) \<Rightarrow>
                (Inr (), if run_id \<noteq> [] then color_print (ViewDetailsHint run_id) CYAN s else s))
         else (Inr (), s))"

definition cmd_build :: "'w env \<Rightarrow> args \<Rightarrow> 'w state \<Rightarrow> (exn + int) \<times> 'w state" where
  "cmd_build env a s =
     (case check_gh_installed env (s\<lparr>DRY_RUN := dry_run a\<rparr>) of
        (Inl e, s) \<Rightarrow> (Inl e, s)
      | (Inr _, s) \<Rightarrow>
          (case check_repo_exists env s of
             (Inl e, s) \<Rightarrow> (Inl e, s)
           | (Inr _, s) \<Rightarrow>
               (case cmd_push env a (color_print Step1Commit HEADER s) of
                  (Inl e, s) \<Rightarrow> (Inl e, s)
                | (Inr ret, s) \<Rightarrow>
                    if ret \<noteq> 0 then (Inr ret, s)
                    else
                      (let t = or_else (tag a) (get_tag_timestamp env s)
                       in case run_cmd env (workflow_run t) (Some (RS_CLIENT_DIR env))
                                 DEFAULT_CMD_TIMEOUT (announce_trigger t s) of
                         ((code, stdout, stderr), s) \<Rightarrow>
                           if code \<noteq> 0 then (Inr 1, color_print (TriggerFailed stderr) RED s)
                           else
                             (case confirm_start env t s of
                                (Inl e, s) \<Rightarrow> (Inl e, s)
                              | (Inr _, s) \<Rightarrow>
                                  (Inr 0, color_print (MonitorHint (script_name env)) YELLOW s))))))"

text \<open>\<open>cmd_watch\<close> (lines 380 to 417).\<close>

definition cmd_watch :: "'w env \<Rightarrow> args \<Rightarrow> 'w state \<Rightarrow> (exn + int) \<times> 'w state" where
  "cmd_watch env a s =
     (case check_gh_installed env s of
        (Inl e, s) \<Rightarrow> (Inl e, s)
      | (Inr _, s) \<Rightarrow>
          (let s = color_print QueryingStatus HEADER s
           in case run_cmd env
                     [''gh'', ''run'', ''list'', ''-R'', repo_slug, ''-w'', WORKFLOW_FILE, ''-L'', ''5'']
                     (Some (RS_CLIENT_DIR env)) DEFAULT_CMD_TIMEOUT s of
             ((code, stdout, stderr), s) \<Rightarrow>
               if code \<noteq> 0 then (Inr 1, color_print (QueryFailed stderr) RED s)
               else if stdout = [] then (Inr 0, color_print NoRunsFound YELLOW s)
               else
                 (let s = color_print Recent5Header CYAN s;
                      s = print (Text (replicate 80 (CHR ''-''))) s;
                      s = print (Text stdout) s;
                      s = print (Text (replicate 80 (CHR ''-''))) s
                  in if follow a then
                       (case run_cmd_live env [''gh'', ''run'', ''watch'', ''-R'', repo_slug]
                               (Some (RS_CLIENT_DIR env)) (color_print FollowingLatest HEADER s) of
                          (code, s) \<Rightarrow> (Inr code, s))
                     else (Inr 0, s))))"

definition run_list_failed :: "string list" where
  "run_list_failed =
     [''gh'', ''run'', ''list'', ''-R'', repo_slug, ''-w'', WORKFLOW_FILE, ''-s'', ''failure'',
      ''-L'', ''1'', ''--json'', ''databaseId,displayTitle,conclusion,createdAt'']"

definition run_view_log_failed :: "string \<Rightarrow> string list" where
  "run_view_log_failed run_id = [''gh'', ''run'', ''view'', run_id, ''-R'', repo_slug, ''--log-failed'']"

text \<open>\<open>cmd_fail\<close> (lines 420 to 471).\<close>

definition cmd_fail :: "'w env \<Rightarrow> args \<Rightarrow> 'w state \<Rightarrow> (exn + int) \<times> 'w state" where
  "cmd_fail env a s =
     (case check_gh_installed env s of
        (Inl e, s) \<Rightarrow> (Inl e, s)
      | (Inr _, s) \<Rightarrow>
          (let s = color_print SearchingFailure HEADER s
           in case run_cmd env run_list_failed (Some (RS_CLIENT_DIR env)) DEFAULT_CMD_TIMEOUT s of
             ((code, stdout, stderr), s) \<Rightarrow>
               if code \<noteq> 0 then (Inr 1, color_print (QueryFailed stderr) RED s)
               else
                 (case json_loads env stdout of
                    None \<Rightarrow> (Inr 1, color_print ParseFailed RED s)
                  | Some runs \<Rightarrow>
                      if \<not> truthy runs then (Inr 0, color_print NoFailedRuns GREEN s)
                      else
                        (case subscript_zero runs of
                           Inl e \<Rightarrow> (Inl e, s)
                         | Inr run \<Rightarrow>
                             (case subscript_key run ''databaseId'' of
                                Inl e \<Rightarrow> (Inl e, s)
                              | Inr run_id \<Rightarrow>
                                  (case subscript_key run ''displayTitle'' of
                                     Inl e \<Rightarrow> (Inl e, s)
                                   | Inr title \<Rightarrow>
                                       (case subscript_key run ''createdAt'' of
                                          Inl e \<Rightarrow> (Inl e, s)
                                        | Inr created \<Rightarrow>
                                            (let s = color_print FoundFailedRun RED s;
                                                 s = color_print (Text (''  Run ID: '' @ py_str env run_id)) CYAN s;
                                                 s = color_print (TitleIs (py_str env title)) CYAN s;
                                                 s = color_print (TimeIs (py_str env created)) CYAN s;
                                                 s = color_print FetchingFailedJobs HEADER s;
                                                 s = color_print FailedLogFollows YELLOW s;
                                                 s = print (Text (replicate 80 (CHR ''=''))) s
                                             in case run_cmd_live env
                                                       (run_view_log_failed (py_str env run_id))
                                                       (Some (RS_CLIENT_DIR env)) s of
                                                  (code, s) \<Rightarrow> (Inr code, s)))))))))"

section \<open>Reading a run of the script\<close>

text \<open>
  The state the interpreter starts a command in: the flag as line 48 sets it, the
  clock at some reading, nothing printed yet.
\<close>

definition initial_state :: "nat \<Rightarrow> 'w \<Rightarrow> 'w state" where
  "initial_state t w = \<lparr>DRY_RUN = False, now = t, world = w, trace = []\<rparr>"

fun is_print :: "event \<Rightarrow> bool" where
  "is_print (ColorPrint m c) = True"
| "is_print (Print m) = True"
| "is_print (Subprocess cmd cwd capture timeout) = False"
| "is_print (Sleep n) = False"

fun is_wait_banner :: "event \<Rightarrow> bool" where
  "is_wait_banner (ColorPrint (WaitingForWorkflow n) c) = True"
| "is_wait_banner _ = False"

text \<open>
  \<open>only_printed s s'\<close>: going from \<open>s\<close> to \<open>s'\<close> the process printed lines and
  did nothing else: no child process, no sleep, the outside world and the clock as
  they were; and the banner that opens the wait for the workflow run (line 266) is
  not among the lines.
\<close>

definition only_printed :: "'w state \<Rightarrow> 'w state \<Rightarrow> bool" where
  "only_printed s s' =
     (world s' = world s \<and> now s' = now s \<and>
      prefix (trace s) (trace s') \<and>
      list_all (\<lambda>e. is_print e \<and> \<not> is_wait_banner e) (drop (length (trace s)) (trace s')))"

text \<open>The working directories of the child processes started from \<open>s\<close> to \<open>s'\<close>.\<close>

fun cwd_of :: "event \<Rightarrow> path option list" where
  "cwd_of (Subprocess cmd cwd capture timeout) = [cwd]"
| "cwd_of _ = []"

definition cwds_since :: "'w state \<Rightarrow> 'w state \<Rightarrow> path option list" where
  "cwds_since s s' = concat (map cwd_of (drop (length (trace s)) (trace s')))"

text \<open>
  \<open>frame D s s'\<close>: \<open>s'\<close> is reached from \<open>s\<close> by printing, sleeping and child
  processes whose working directories lie in \<open>D\<close>; the flag is as it was and the
  clock has not gone back.
\<close>

definition frame :: "path option set \<Rightarrow> 'w state \<Rightarrow> 'w state \<Rightarrow> bool" where
  "frame D s s' = (DRY_RUN s' = DRY_RUN s \<and> now s \<le> now s' \<and> prefix (trace s) (trace s')
      \<and> set (cwds_since s s') \<subseteq> D)"

text \<open>\<open>dry s s'\<close>: the flag is set in \<open>s'\<close>, and from \<open>s\<close> to \<open>s'\<close> lines were printed only.\<close>

definition dry :: "'w state \<Rightarrow> 'w state \<Rightarrow> bool" where
  "dry s s' = (DRY_RUN s' \<and> only_printed s s')"

text \<open>
  \<open>listed_active env out run_id\<close>: the output \<open>out\<close> of the listing of the latest
  run is not empty and decodes to a true value whose first element has the status
  \<open>queued\<close> or \<open>in_progress\<close> and the \<open>databaseId\<close> that \<open>str\<close> renders as
  \<open>run_id\<close>.
\<close>

definition listed_active :: "'w env \<Rightarrow> string \<Rightarrow> string \<Rightarrow> bool" where
  "listed_active env out run_id =
     (out \<noteq> [] \<and>
      (case json_loads env out of
         None \<Rightarrow> False
       | Some runs \<Rightarrow>
           truthy runs \<and>
           (case subscript_zero runs of
              Inl e \<Rightarrow> False
            | Inr r \<Rightarrow>
                (subscript_key r ''status'' = Inr (JStr ''queued'')
                 \<or> subscript_key r ''status'' = Inr (JStr ''in_progress''))
                \<and> (case subscript_key r ''databaseId'' of
                      Inl e \<Rightarrow> False
                    | Inr v \<Rightarrow> run_id = py_str env v))))"

section \<open>Stand-ins for the outside world\<close>

text \<open>
  Two concrete outside worlds on which the model is run. In the first the world is
  the list of answers the next child processes will give, each with the seconds it
  takes; when the list is used up a child succeeds at once with no output.
\<close>

definition scripted_run ::
  "string list \<Rightarrow> path option \<Rightarrow> bool \<Rightarrow> int option \<Rightarrow> (proc \<times> nat) list
     \<Rightarrow> proc \<times> nat \<times> (proc \<times> nat) list" where
  "scripted_run cmd cwd capture timeout w =
     (case w of [] \<Rightarrow> (Completed 0 [] [], 0, []) | (r, d) # rest \<Rightarrow> (r, d, rest))"

text \<open>What \<open>gh run list\<close> prints for one run in progress, and for none.\<close>

definition listing_run7 :: string where
  \<open>listing_run7 =
     ''[{"createdAt":"2026-11-03T09:00:00Z","databaseId":7,"status":"in_progress"}]''\<close>

definition decode_listing :: "string \<Rightarrow> json option" where
  "decode_listing text =
     (if text = ''[]'' then Some (JArr [])
      else if text = listing_run7 then
        Some (JArr [JObj [(''createdAt'', JStr ''2026-11-03T09:00:00Z''),
                          (''databaseId'', JInt 7),
                          (''status'', JStr ''in_progress'')]])
      else None)"

definition evening :: datetime where
  "evening = \<lparr>year = 2026, month = 11, day = 3, hour = 20, minute = 12, second = 45\<rparr>"

definition scripted_env :: "(proc \<times> nat) list env" where
  "scripted_env =
     \<lparr>script_dir = [''home'', ''dev'', ''rs-client''],
      script_name = ''Rs_gh_actions.py'',
      subprocess_run = scripted_run,
      path_exists = (\<lambda>p w. True),
      json_loads = decode_listing,
      localtime = (\<lambda>t. evening),
      timeout_text = (\<lambda>t. ''timeout''),
      py_repr = (\<lambda>v. ''?'')\<rparr>"

text \<open>
  In the second nothing outside changes (the world is \<open>unit\<close>). Every tool
  succeeds after one second without output, except that the listing of the latest
  run prints the given text: the remote lists the same latest run all the time,
  and a trigger is accepted without a new run being listed yet.
\<close>

definition idle_remote_run ::
  "string \<Rightarrow> string list \<Rightarrow> path option \<Rightarrow> bool \<Rightarrow> int option \<Rightarrow> unit \<Rightarrow> proc \<times> nat \<times> unit" where
  "idle_remote_run listing cmd cwd capture timeout w =
     (if cmd = run_list_latest then (Completed 0 listing [], 1, w) else (Completed 0 [] [], 1, w))"

definition idle_remote_env :: "string \<Rightarrow> unit env" where
  "idle_remote_env listing =
     \<lparr>script_dir = [''home'', ''dev'', ''rs-client''],
      script_name = ''Rs_gh_actions.py'',
      subprocess_run = idle_remote_run listing,
      path_exists = (\<lambda>p w. True),
      json_loads = decode_listing,
      localtime = (\<lambda>t. evening),
      timeout_text = (\<lambda>t. ''timeout''),
      py_repr = (\<lambda>v. ''?'')\<rparr>"

text \<open>A working tree whose status query prints one empty line.\<close>

definition clean_tree :: "(proc \<times> nat) list state" where
  "clean_tree = initial_state 0 [(Completed 0 [CHR 0x0A] [], 1)]"

text \<open>A directory in which the status query fails.\<close>

definition broken_tree :: "(proc \<times> nat) list state" where
  "broken_tree = initial_state 0 [(Completed 128 [] ''fatal: not a git repository'', 1)]"

text \<open>
  A working tree with a change listed, where staging succeeds and the commit then
  exits with 1 and reports on its output that there is nothing to commit.
\<close>

definition nothing_staged :: "(proc \<times> nat) list state" where
  "nothing_staged = initial_state 0
     [(Completed 0 '' M src/main.rs'' [], 1),
      (Completed 0 [] [], 1),
      (Completed 1 ''nothing to commit, working tree clean'' [], 1)]"

text \<open>
  A repository after its commit, where the fetch fails and the count of upstream
  commits missing locally then prints 3.
\<close>

definition fetch_fails :: "(proc \<times> nat) list state" where
  "fetch_fails = initial_state 0
     [(Completed 128 [] ''fatal: unable to access the remote'', 2),
      (Completed 0 ''3'' [], 1)]"

text \<open>The same, where the count of upstream commits exits with 128.\<close>

definition no_upstream :: "(proc \<times> nat) list state" where
  "no_upstream = initial_state 0
     [(Completed 0 [] [], 2),
      (Completed 128 [] ''fatal: no upstream configured'', 1)]"

text \<open>
  A machine where \<open>gh\<close> is installed and logged in, and the listing of failed
  runs prints an empty list.
\<close>

definition no_failed_runs :: "(proc \<times> nat) list state" where
  "no_failed_runs = initial_state 0
     [(Completed 0 ''gh version 2.62.0'' [], 1),
      (Completed 0 [] ''Logged in to github.com'', 1),
      (Completed 0 ''[]'' [], 1)]"

text \<open>A command line without options, and one with \<open>--dry-run\<close> only.\<close>

definition plain_args :: args where
  "plain_args = \<lparr>message = None, tag = None, dry_run = False, follow = False\<rparr>"

definition dry_args :: args where
  "dry_args = \<lparr>message = None, tag = None, dry_run = True, follow = False\<rparr>"

text \<open>
  The build command without options on the idle remote: the states it is in after
  the check of \<open>gh\<close>, after the check of the directories, and after the push.
\<close>

definition idle_gh :: "string \<Rightarrow> unit state" where
  "idle_gh listing =
     snd (check_gh_installed (idle_remote_env listing)
            ((initial_state 0 ())\<lparr>DRY_RUN := dry_run plain_args\<rparr>))"

definition idle_checked :: "string \<Rightarrow> unit state" where
  "idle_checked listing = snd (check_repo_exists (idle_remote_env listing) (idle_gh listing))"

definition idle_pushed :: "string \<Rightarrow> unit state" where
  "idle_pushed listing =
     snd (cmd_push (idle_remote_env listing) plain_args
            (color_print Step1Commit HEADER (idle_checked listing)))"

text \<open>
  A push with the message \<open>sync\<close> where the submodule has a change, stages and
  commits it, finds the remote not ahead, and has its \<open>git push\<close> rejected. The
  last answer of the script is left for whatever would run next.
\<close>

definition sync_args :: args where
  "sync_args = \<lparr>message = Some ''sync'', tag = None, dry_run = False, follow = False\<rparr>"

definition rejected_push :: "(proc \<times> nat) list state" where
  "rejected_push = initial_state 0
     [(Completed 0 ''gh version 2.62.0'' [], 1),
      (Completed 0 [] ''Logged in to github.com'', 1),
      (Completed 0 '' M src/lib.rs'' [], 1),
      (Completed 0 [] [], 1),
      (Completed 0 ''1 file changed'' [], 1),
      (Completed 0 [] [], 2),
      (Completed 0 ''0'' [], 1),
      (Completed 1 [] '' ! [rejected] master -> master (fetch first)'', 3),
      (Completed 0 '' M libs/hbb_common'' [], 1)]"

definition rejected_preflight :: "(proc \<times> nat) list state" where
  "rejected_preflight = snd (push_preflight scripted_env sync_args rejected_push)"

definition rejected_synced :: "(proc \<times> nat) list state" where
  "rejected_synced =
     snd (git_commit_push scripted_env (HBB_COMMON_DIR scripted_env) ''hbb_common'' ''sync'' True
            rejected_preflight)"

text \<open>A process in which the flag is set, on a machine that would answer every tool with an error.\<close>

definition dry_state :: "(proc \<times> nat) list state" where
  "dry_state = (initial_state 0 (replicate 40 (Completed 1 [] ''error'', 5)))\<lparr>DRY_RUN := True\<rparr>"


section \<open>How the state moves\<close>

lemma frame_refl: "frame D s s"
  by (simp add: frame_def cwds_since_def)

lemma frame_event:
  "frame D s s1 \<Longrightarrow> set (cwd_of e) \<subseteq> D \<Longrightarrow> DRY_RUN s2 = DRY_RUN s1 \<Longrightarrow> now s1 \<le> now s2
     \<Longrightarrow> trace s2 = trace s1 @ [e] \<Longrightarrow> frame D s s2"
  by (auto simp: frame_def cwds_since_def prefix_def)

lemma frame_color_print: "frame D s s1 \<Longrightarrow> frame D s (color_print m c s1)"
  by (erule frame_event [where e = "ColorPrint m c"]) (simp_all add: color_print_def)

lemma frame_print: "frame D s s1 \<Longrightarrow> frame D s (print m s1)"
  by (erule frame_event [where e = "Print m"]) (simp_all add: print_def)

lemma frame_sleep: "frame D s s1 \<Longrightarrow> frame D s (sleep n s1)"
  by (erule frame_event [where e = "Sleep n"]) (simp_all add: sleep_def)

lemma frame_spawn:
  "spawn env cmd cwd cap t s1 = (r, s2) \<Longrightarrow> cwd \<in> D \<Longrightarrow> frame D s s1 \<Longrightarrow> frame D s s2"
  by (erule frame_event [where e = "Subprocess cmd cwd cap t"])
     (auto simp: spawn_def split: prod.splits)

lemmas frame_prints = frame_color_print frame_print frame_sleep

lemma frame_run_cmd:
  "run_cmd env cmd cwd t s1 = (r, s2) \<Longrightarrow> cwd \<in> D \<Longrightarrow> frame D s s1 \<Longrightarrow> frame D s s2"
  apply (clarsimp simp: run_cmd_def split: if_splits prod.splits proc.splits)
  apply (assumption | rule frame_prints | erule frame_spawn)+
  done

lemma frame_run_cmd_live:
  "run_cmd_live env cmd cwd s1 = (r, s2) \<Longrightarrow> cwd \<in> D \<Longrightarrow> frame D s s1 \<Longrightarrow> frame D s s2"
  apply (clarsimp simp: run_cmd_live_def split: if_splits prod.splits proc.splits)
  apply (assumption | rule frame_prints | erule frame_spawn)+
  done

lemma frame_git_has_changes:
  "git_has_changes env d s1 = (r, s2) \<Longrightarrow> Some d \<in> D \<Longrightarrow> frame D s s1 \<Longrightarrow> frame D s s2"
  apply (clarsimp simp: git_has_changes_def split: prod.splits)
  apply (assumption | rule frame_prints | erule frame_run_cmd)+
  done

lemma frame_git_check_remote_ahead:
  "git_check_remote_ahead env d s1 = (r, s2) \<Longrightarrow> Some d \<in> D \<Longrightarrow> frame D s s1 \<Longrightarrow> frame D s s2"
  apply (clarsimp simp: git_check_remote_ahead_def split: prod.splits if_splits sum.splits)
  apply (assumption | rule frame_prints | erule frame_run_cmd)+
  done

lemma frame_git_pull:
  "git_pull env d s1 = (r, s2) \<Longrightarrow> Some d \<in> D \<Longrightarrow> frame D s s1 \<Longrightarrow> frame D s s2"
  apply (clarsimp simp: git_pull_def Let_def split: prod.splits if_splits)
  apply (assumption | rule frame_prints | erule frame_run_cmd)+
  done

lemma frame_push_step:
  "push_step env d s1 = (r, s2) \<Longrightarrow> Some d \<in> D \<Longrightarrow> frame D s s1 \<Longrightarrow> frame D s s2"
  apply (clarsimp simp: push_step_def Let_def split: prod.splits if_splits)
  apply (assumption | rule frame_prints | erule frame_run_cmd)+
  done

lemma frame_pull_push_step:
  "pull_push_step env d ap s1 = (r, s2) \<Longrightarrow> Some d \<in> D \<Longrightarrow> frame D s s1 \<Longrightarrow> frame D s s2"
  apply (clarsimp simp: pull_push_step_def split: prod.splits if_splits sum.splits)
  apply (assumption | rule frame_prints
         | erule frame_git_check_remote_ahead frame_git_pull frame_push_step)+
  done

lemma frame_announce_repo: "frame D s s1 \<Longrightarrow> frame D s (announce_repo d n s1)"
  by (simp add: announce_repo_def frame_color_print)

lemma frame_git_commit_push:
  "git_commit_push env d n m ap s1 = (r, s2) \<Longrightarrow> Some d \<in> D \<Longrightarrow> frame D s s1 \<Longrightarrow> frame D s s2"
  apply (clarsimp simp: git_commit_push_def split: prod.splits if_splits)
  apply (assumption | rule frame_prints frame_announce_repo
         | erule frame_git_has_changes frame_run_cmd frame_pull_push_step)+
  done


lemma frame_check_gh_installed:
  "check_gh_installed env s1 = (r, s2) \<Longrightarrow> None \<in> D \<Longrightarrow> frame D s s1 \<Longrightarrow> frame D s s2"
  apply (clarsimp simp: check_gh_installed_def split: prod.splits if_splits)
  apply (assumption | rule frame_prints | erule frame_run_cmd)+
  done

lemma frame_check_repo_exists:
  "check_repo_exists env s1 = (r, s2) \<Longrightarrow> Some (RS_CLIENT_DIR env) \<in> D \<Longrightarrow> frame D s s1
     \<Longrightarrow> frame D s s2"
  apply (clarsimp simp: check_repo_exists_def Let_def split: prod.splits if_splits)
  apply (assumption | rule frame_prints | erule frame_run_cmd_live)+
  done

lemma frame_poll_runs:
  "poll_runs env s1 = (r, s2) \<Longrightarrow> Some (RS_CLIENT_DIR env) \<in> D \<Longrightarrow> frame D s s1 \<Longrightarrow> frame D s s2"
  apply (clarsimp simp: poll_runs_def split: prod.splits if_splits option.splits sum.splits)
  apply (assumption | rule frame_prints | erule frame_run_cmd)+
  done

lemma frame_wait_loop:
  "wait_loop env st mw s1 = (r, s2) \<Longrightarrow> Some (RS_CLIENT_DIR env) \<in> D \<Longrightarrow> frame D s s1
     \<Longrightarrow> frame D s s2"
proof (induction env st mw s1 rule: wait_loop.induct)
  case (1 env st mw s1)
  show ?case
  proof (cases "int (now s1) - int st < mw")
    case False
    with "1.prems" show ?thesis by (simp add: wait_loop.simps)
  next
    case True
    obtain x t where p: "poll_runs env s1 = (x, t)" by (cases "poll_runs env s1")
    from p "1.prems" have ft: "frame D s t" by (blast intro: frame_poll_runs)
    show ?thesis
    proof (cases "x = Inr None")
      case True
      with \<open>int (now s1) - int st < mw\<close> p "1.prems"(1)
      have "wait_loop env st mw (sleep 2 t) = (r, s2)"
        by (simp add: wait_loop.simps [of env st mw s1])
      with "1.IH" [OF \<open>int (now s1) - int st < mw\<close> p [symmetric] True _ this "1.prems"(2)]
        ft True show ?thesis
        by (auto intro: frame_sleep)
    next
      case False
      with \<open>int (now s1) - int st < mw\<close> p "1.prems"(1) have "s2 = t"
        by (auto simp: wait_loop.simps [of env st mw s1] split: sum.splits option.splits)
      with ft show ?thesis by simp
    qed
  qed
qed

text \<open>The definitions that run a child process of the scripted stand-in.\<close>

lemmas scripted_defs = run_cmd_def spawn_def scripted_env_def scripted_run_def color_print_def
  announce_repo_def initial_state_def py_strip_def py_isspace_def

lemma frame_wait_for_workflow_start:
  "wait_for_workflow_start env mw s1 = (r, s2) \<Longrightarrow> Some (RS_CLIENT_DIR env) \<in> D \<Longrightarrow> frame D s s1
     \<Longrightarrow> frame D s s2"
  apply (clarsimp simp: wait_for_workflow_start_def Let_def
              split: prod.splits sum.splits option.splits)
    apply (assumption | rule frame_prints | erule frame_wait_loop)+
  done

lemma frame_confirm_start:
  "confirm_start env t s1 = (r, s2) \<Longrightarrow> Some (RS_CLIENT_DIR env) \<in> D \<Longrightarrow> frame D s s1
     \<Longrightarrow> frame D s s2"
  apply (clarsimp simp: confirm_start_def Let_def
              split: prod.splits sum.splits option.splits if_splits)
       apply (assumption | rule frame_prints | erule frame_wait_for_workflow_start)+
  done

lemma frame_push_preflight:
  "push_preflight env a s1 = (r, s2) \<Longrightarrow> None \<in> D \<Longrightarrow> Some (RS_CLIENT_DIR env) \<in> D
     \<Longrightarrow> frame D s (s1\<lparr>DRY_RUN := dry_run a\<rparr>) \<Longrightarrow> frame D s s2"
  apply (clarsimp simp: push_preflight_def Let_def split: prod.splits sum.splits if_splits)
     apply (assumption | rule frame_prints | erule frame_check_gh_installed frame_check_repo_exists)+
  done

lemma frame_cmd_push:
  "cmd_push env a s1 = (r, s2) \<Longrightarrow> None \<in> D \<Longrightarrow> Some (RS_CLIENT_DIR env) \<in> D
     \<Longrightarrow> Some (HBB_COMMON_DIR env) \<in> D
     \<Longrightarrow> frame D s (s1\<lparr>DRY_RUN := dry_run a\<rparr>) \<Longrightarrow> frame D s s2"
  apply (clarsimp simp: cmd_push_def split: prod.splits sum.splits if_splits)
      apply (assumption | rule frame_prints | erule frame_push_preflight frame_git_commit_push)+
  done

lemma get_tag_timestamp_format:
  "get_tag_timestamp env s =
     show_nat (year (localtime env (now s))) @ ''-'' @
     pad2 (month (localtime env (now s))) @ pad2 (day (localtime env (now s))) @ ''-'' @
     pad2 (hour (localtime env (now s))) @ pad2 (minute (localtime env (now s)))"
  by (simp add: get_tag_timestamp_def directive_def)

lemma frame_prefix: "frame D s s' \<Longrightarrow> prefix (trace s) (trace s')"
  by (simp add: frame_def)

lemma frame_DRY_RUN: "frame D s s' \<Longrightarrow> DRY_RUN s' = DRY_RUN s"
  by (simp add: frame_def)

lemma take_of_prefix: "prefix xs ys \<Longrightarrow> length xs = n \<Longrightarrow> take n ys = xs"
  by (auto simp: prefix_def)

lemma DRY_RUN_after_cmd_push: "cmd_push env a s = (r, s') \<Longrightarrow> DRY_RUN s' = dry_run a"
  using frame_cmd_push [of env a s r s' UNIV "s\<lparr>DRY_RUN := dry_run a\<rparr>"]
  by (simp add: frame_refl frame_def)

lemma trace_run_cmd:
  "run_cmd env cmd cwd t s = (r, s') \<Longrightarrow>
     trace s' = trace s @ [if DRY_RUN s then ColorPrint (DryRunWouldExec (py_join '' '' cmd)) YELLOW
                           else Subprocess cmd cwd True (Some t)]"
  by (auto simp: run_cmd_def spawn_def color_print_def split: if_splits prod.splits proc.splits)

lemma DRY_RUN_run_cmd: "run_cmd env cmd cwd t s = (r, s') \<Longrightarrow> DRY_RUN s' = DRY_RUN s"
  by (auto simp: run_cmd_def spawn_def color_print_def split: if_splits prod.splits proc.splits)

text \<open>The build command on the idle remote, evaluated up to the push.\<close>

lemmas idle_defs = run_cmd_def run_cmd_live_def spawn_def idle_remote_env_def idle_remote_run_def
  color_print_def announce_repo_def initial_state_def py_strip_def py_isspace_def
  check_gh_installed_def check_repo_exists_def git_has_changes_def git_commit_push_def
  push_preflight_def cmd_push_def run_list_latest_def plain_args_def
  idle_gh_def idle_checked_def idle_pushed_def

lemma idle_gh:
  "check_gh_installed (idle_remote_env l) ((initial_state 0 ())\<lparr>DRY_RUN := dry_run plain_args\<rparr>)
     = (Inr (), idle_gh l)"
  by (simp add: idle_defs)

lemma idle_checked: "check_repo_exists (idle_remote_env l) (idle_gh l) = (Inr (), idle_checked l)"
  by (simp add: idle_defs)

lemma idle_pushed:
  "cmd_push (idle_remote_env l) plain_args (color_print Step1Commit HEADER (idle_checked l))
     = (Inr 0, idle_pushed l)"
  by (simp add: idle_defs Let_def)

lemma frame_cwds: "frame D s s' \<Longrightarrow> set (cwds_since s s') \<subseteq> D"
  by (simp add: frame_def)

text \<open>The push whose \<open>git push\<close> is rejected, evaluated.\<close>

lemma rejected_preflight:
  "push_preflight scripted_env sync_args rejected_push = (Inr ''sync'', rejected_preflight)"
  by (simp add: rejected_preflight_def push_preflight_def check_gh_installed_def
        check_repo_exists_def scripted_defs rejected_push_def sync_args_def or_else_def Let_def)

lemma rejected_synced:
  "git_commit_push scripted_env (HBB_COMMON_DIR scripted_env) ''hbb_common'' ''sync'' True
     rejected_preflight = (Inr False, rejected_synced)"
  by (simp add: rejected_synced_def rejected_preflight_def push_preflight_def
        check_gh_installed_def check_repo_exists_def scripted_defs rejected_push_def sync_args_def
        or_else_def Let_def git_commit_push_def git_has_changes_def pull_push_step_def
        git_check_remote_ahead_def push_step_def py_isdigit_def py_isdigit_char_def py_int_def
        HBB_COMMON_DIR_def RS_CLIENT_DIR_def)

lemma rejected_synced_world:
  "world rejected_synced = [(Completed 0 '' M libs/hbb_common'' [], 1)]"
  by (simp add: rejected_synced_def rejected_preflight_def push_preflight_def
        check_gh_installed_def check_repo_exists_def scripted_defs rejected_push_def sync_args_def
        or_else_def Let_def git_commit_push_def git_has_changes_def pull_push_step_def
        git_check_remote_ahead_def push_step_def py_isdigit_def py_isdigit_char_def py_int_def
        HBB_COMMON_DIR_def RS_CLIENT_DIR_def)

section \<open>What happens when the flag is set\<close>

lemma dry_refl: "DRY_RUN s \<Longrightarrow> dry s s"
  by (simp add: dry_def only_printed_def)

lemma dry_event:
  "is_print e \<and> \<not> is_wait_banner e \<Longrightarrow> dry s s1 \<Longrightarrow> trace s2 = trace s1 @ [e]
     \<Longrightarrow> world s2 = world s1 \<Longrightarrow> now s2 = now s1 \<Longrightarrow> DRY_RUN s2 = DRY_RUN s1 \<Longrightarrow> dry s s2"
  by (auto simp: dry_def only_printed_def prefix_def)

lemma dry_color_print:
  "\<not> is_wait_banner (ColorPrint m c) \<Longrightarrow> dry s s1 \<Longrightarrow> dry s (color_print m c s1)"
  by (rule dry_event [where e = "ColorPrint m c" and ?s1.0 = s1]) (simp_all add: color_print_def)

lemma dry_print: "dry s s1 \<Longrightarrow> dry s (print m s1)"
  by (rule dry_event [where e = "Print m" and ?s1.0 = s1]) (simp_all add: print_def)

lemma run_cmd_dry:
  "DRY_RUN s \<Longrightarrow> run_cmd env cmd cwd t s =
     ((0, ''[dry-run]'', ''''), color_print (DryRunWouldExec (py_join '' '' cmd)) YELLOW s)"
  by (simp add: run_cmd_def)

lemma run_cmd_live_dry:
  "DRY_RUN s \<Longrightarrow> run_cmd_live env cmd cwd s =
     (0, color_print (DryRunWouldExec (py_join '' '' cmd)) YELLOW s)"
  by (simp add: run_cmd_live_def)

lemma dry_run_cmd: "run_cmd env cmd cwd t s1 = (r, s2) \<Longrightarrow> dry s s1 \<Longrightarrow> dry s s2"
  using run_cmd_dry [of s1 env cmd cwd t] by (auto simp: dry_def [of s s1] intro: dry_color_print dest: sym)

lemma dry_run_cmd_live: "run_cmd_live env cmd cwd s1 = (r, s2) \<Longrightarrow> dry s s1 \<Longrightarrow> dry s s2"
  using run_cmd_live_dry [of s1 env cmd cwd] by (auto simp: dry_def [of s s1] intro: dry_color_print)

lemma dry_check_gh_installed:
  "check_gh_installed env s1 = (r, s2) \<Longrightarrow> dry s s1 \<Longrightarrow> dry s s2"
  apply (clarsimp simp: check_gh_installed_def split: prod.splits if_splits)
  apply (assumption | (rule dry_color_print, simp) | rule dry_print
         | erule dry_run_cmd)+
  done

lemma dry_check_repo_exists:
  "check_repo_exists env s1 = (r, s2) \<Longrightarrow> dry s s1 \<Longrightarrow> dry s s2"
  apply (clarsimp simp: check_repo_exists_def Let_def split: prod.splits if_splits)
  apply (assumption | (rule dry_color_print, simp) | rule dry_print
         | erule dry_run_cmd_live)+
  done

lemma dry_git_has_changes:
  "git_has_changes env d s1 = (r, s2) \<Longrightarrow> dry s s1 \<Longrightarrow> dry s s2"
  apply (clarsimp simp: git_has_changes_def split: prod.splits)
  apply (assumption | (rule dry_color_print, simp) | rule dry_print
         | erule dry_run_cmd)+
  done

lemma dry_git_check_remote_ahead:
  "git_check_remote_ahead env d s1 = (r, s2) \<Longrightarrow> dry s s1 \<Longrightarrow> dry s s2"
  apply (clarsimp simp: git_check_remote_ahead_def split: prod.splits if_splits sum.splits)
  apply (assumption | (rule dry_color_print, simp) | rule dry_print
         | erule dry_run_cmd)+
  done

lemma dry_git_pull:
  "git_pull env d s1 = (r, s2) \<Longrightarrow> dry s s1 \<Longrightarrow> dry s s2"
  apply (clarsimp simp: git_pull_def Let_def split: prod.splits if_splits)
  apply (assumption | (rule dry_color_print, simp) | rule dry_print
         | erule dry_run_cmd)+
  done

lemma dry_push_step:
  "push_step env d s1 = (r, s2) \<Longrightarrow> dry s s1 \<Longrightarrow> dry s s2"
  apply (clarsimp simp: push_step_def Let_def split: prod.splits if_splits)
  apply (assumption | (rule dry_color_print, simp) | rule dry_print
         | erule dry_run_cmd)+
  done

lemma dry_pull_push_step:
  "pull_push_step env d ap s1 = (r, s2) \<Longrightarrow> dry s s1 \<Longrightarrow> dry s s2"
  apply (clarsimp simp: pull_push_step_def split: prod.splits if_splits sum.splits)
  apply (assumption | (rule dry_color_print, simp) | rule dry_print
         | erule dry_git_check_remote_ahead dry_git_pull dry_push_step)+
  done

lemma dry_git_commit_push:
  "git_commit_push env d n m ap s1 = (r, s2) \<Longrightarrow> dry s s1 \<Longrightarrow> dry s s2"
  apply (clarsimp simp: git_commit_push_def announce_repo_def Let_def split: prod.splits if_splits)
  apply (assumption | (rule dry_color_print, simp) | rule dry_print
         | erule dry_git_has_changes dry_run_cmd dry_pull_push_step)+
  done

lemma DRY_RUN_color_print [simp]: "DRY_RUN (color_print m c s) = DRY_RUN s"
  by (simp add: color_print_def)

lemma dry_push_preflight:
  "push_preflight env a s1 = (r, s2) \<Longrightarrow> dry_run a \<Longrightarrow> dry s (s1\<lparr>DRY_RUN := True\<rparr>) \<Longrightarrow> dry s s2"
  apply (clarsimp simp: push_preflight_def Let_def split: prod.splits if_splits sum.splits)
  apply (assumption | (rule dry_color_print, simp) | rule dry_print
         | erule dry_check_gh_installed dry_check_repo_exists)+
  done

lemma dry_cmd_push:
  "cmd_push env a s1 = (r, s2) \<Longrightarrow> dry_run a \<Longrightarrow> dry s (s1\<lparr>DRY_RUN := True\<rparr>) \<Longrightarrow> dry s s2"
  apply (clarsimp simp: cmd_push_def split: prod.splits if_splits sum.splits)
  apply (assumption | (rule dry_color_print, simp) | rule dry_print
         | erule dry_push_preflight dry_git_commit_push)+
  done

lemma dry_DRY_RUN: "dry s s' \<Longrightarrow> DRY_RUN s'"
  by (simp add: dry_def)

lemma dry_confirm_start: "confirm_start env t s1 = (r, s2) \<Longrightarrow> dry s s1 \<Longrightarrow> dry s s2"
  apply (frule dry_DRY_RUN)
  apply (clarsimp simp: confirm_start_def Let_def)
  apply (assumption | (rule dry_color_print, simp))+
  done

lemma dry_cmd_push_again:
  "cmd_push env a s1 = (r, s2) \<Longrightarrow> dry_run a \<Longrightarrow> dry s s1 \<Longrightarrow> dry s s2"
proof -
  assume p: "cmd_push env a s1 = (r, s2)" and a: "dry_run a" and d: "dry s s1"
  from d have "s1\<lparr>DRY_RUN := True\<rparr> = s1"
    by (simp add: dry_def)
  with d have "dry s (s1\<lparr>DRY_RUN := True\<rparr>)"
    by simp
  with p a show ?thesis
    by (rule dry_cmd_push)
qed

lemma dry_cmd_build:
  "cmd_build env a s1 = (r, s2) \<Longrightarrow> dry_run a \<Longrightarrow> dry s (s1\<lparr>DRY_RUN := True\<rparr>) \<Longrightarrow> dry s s2"
  apply (clarsimp simp: cmd_build_def announce_trigger_def Let_def
              split: prod.splits if_splits sum.splits)
  apply (assumption | (rule dry_color_print, simp) | rule dry_print
         | erule dry_check_gh_installed dry_check_repo_exists dry_cmd_push_again dry_run_cmd
             dry_confirm_start)+
  done

lemma dry_cmd_watch: "cmd_watch env a s1 = (r, s2) \<Longrightarrow> dry s s1 \<Longrightarrow> dry s s2"
  apply (clarsimp simp: cmd_watch_def Let_def split: prod.splits if_splits sum.splits)
  apply (assumption | (rule dry_color_print, simp) | rule dry_print
         | erule dry_check_gh_installed dry_run_cmd dry_run_cmd_live)+
  done

lemma dry_cmd_fail: "cmd_fail env a s1 = (r, s2) \<Longrightarrow> dry s s1 \<Longrightarrow> dry s s2"
  apply (clarsimp simp: cmd_fail_def Let_def split: prod.splits if_splits sum.splits option.splits)
  apply (assumption | (rule dry_color_print, simp) | rule dry_print
         | erule dry_check_gh_installed dry_run_cmd dry_run_cmd_live)+
  done

lemma only_printed_from_flag:
  "dry (s\<lparr>DRY_RUN := True\<rparr>) s' \<Longrightarrow> only_printed s s'"
  by (simp add: dry_def only_printed_def)

section \<open>The loop that waits for the workflow run\<close>




lemma wait_loop_induct [consumes 1, case_names expired returned slept]:
  assumes w: "wait_loop env st mw s = (r, s2)"
    and expired: "\<And>s. \<not> int (now s) - int st < mw \<Longrightarrow> P s (Inr None) s"
    and returned: "\<And>s x t. int (now s) - int st < mw \<Longrightarrow> poll_runs env s = (x, t)
                     \<Longrightarrow> x \<noteq> Inr None \<Longrightarrow> P s x t"
    and slept: "\<And>s t r s2. int (now s) - int st < mw \<Longrightarrow> poll_runs env s = (Inr None, t)
                     \<Longrightarrow> wait_loop env st mw (sleep 2 t) = (r, s2) \<Longrightarrow> P (sleep 2 t) r s2
                     \<Longrightarrow> P s r s2"
  shows "P s r s2"
proof -
  have "e = env \<longrightarrow> b = st \<longrightarrow> m = mw \<longrightarrow> (\<forall>r s2. wait_loop e b m s = (r, s2) \<longrightarrow> P s r s2)"
    for e b m s
  proof (induction e b m s rule: wait_loop.induct)
    case (1 e b m s)
    show ?case
    proof (intro impI allI)
      fix r s2
      assume eq: "e = env" "b = st" "m = mw" and run: "wait_loop e b m s = (r, s2)"
      show "P s r s2"
      proof (cases "int (now s) - int st < mw")
        case False
        with run eq expired [OF False] show ?thesis
          by (simp add: wait_loop.simps)
      next
        case True
        obtain x t where p: "poll_runs env s = (x, t)"
          by (cases "poll_runs env s")
        show ?thesis
        proof (cases "x = Inr None")
          case n: True
          with True p run eq have rec: "wait_loop env st mw (sleep 2 t) = (r, s2)"
            by (simp add: wait_loop.simps [of env st mw s])
          from True eq have c: "int (now s) - int b < m"
            by simp
          from p eq have p': "(x, t) = poll_runs e s"
            by simp
          from "1.IH" [OF c p' n] eq rec have "P (sleep 2 t) r s2"
            by simp
          with True p n rec show ?thesis
            by (auto intro: slept)
        next
          case False
          with True p run eq have "r = x \<and> s2 = t"
            by (auto simp: wait_loop.simps [of env st mw s] split: sum.splits option.splits)
          with returned [OF True p False] show ?thesis
            by simp
        qed
      qed
    qed
  qed
  with w show ?thesis
    by blast
qed



lemma wait_loop_some:
  assumes w: "wait_loop env st mw s = (r, s2)"
  shows "r = Inr (Some run_id) \<longrightarrow> (\<exists>s1. poll_runs env s1 = (Inr (Some run_id), s2))"
  using w
proof (induction rule: wait_loop_induct)
  case (expired s)
  show ?case by simp
next
  case (returned s x t)
  then show ?case by blast
next
  case (slept s t r s2)
  then show ?case by simp
qed

lemma poll_runs_some:
  "poll_runs env s1 = (Inr (Some run_id), t) \<Longrightarrow>
     \<exists>out err s2. run_cmd env run_list_latest (Some (RS_CLIENT_DIR env)) DEFAULT_CMD_TIMEOUT s1
                     = ((0, out, err), s2)
        \<and> listed_active env out run_id \<and> t = color_print (WorkflowStarted run_id) GREEN s2"
  by (auto simp: poll_runs_def listed_active_def
           split: prod.splits if_splits option.splits sum.splits)

lemma poll_runs_active:
  "run_cmd env run_list_latest (Some (RS_CLIENT_DIR env)) DEFAULT_CMD_TIMEOUT s1 = ((0, out, err), s2)
     \<Longrightarrow> listed_active env out run_id
     \<Longrightarrow> poll_runs env s1 = (Inr (Some run_id), color_print (WorkflowStarted run_id) GREEN s2)"
  by (auto simp: poll_runs_def listed_active_def
           split: prod.splits if_splits option.splits sum.splits)







text \<open>The idle remote that lists run 7 as in progress.\<close>

lemma idle_run7_listing:
  "run_cmd (idle_remote_env listing_run7) run_list_latest
     (Some (RS_CLIENT_DIR (idle_remote_env listing_run7))) DEFAULT_CMD_TIMEOUT
     (color_print (WaitingForWorkflow 30) CYAN (initial_state 0 ()))
   = ((0, listing_run7, []),
      snd (run_cmd (idle_remote_env listing_run7) run_list_latest
             (Some (RS_CLIENT_DIR (idle_remote_env listing_run7))) DEFAULT_CMD_TIMEOUT
             (color_print (WaitingForWorkflow 30) CYAN (initial_state 0 ()))))"
  by (simp add: run_cmd_def spawn_def idle_remote_env_def idle_remote_run_def color_print_def
        initial_state_def py_strip_def py_isspace_def listing_run7_def)

lemma idle_run7_active: "listed_active (idle_remote_env listing_run7) listing_run7 ''7''"
  by code_simp

section \<open>Properties of the sync engine\<close>

text \<open>
  C3. When the status query of the working tree comes back with empty output,
  \<open>git_commit_push\<close> returns success, and the state it returns is the state right
  after that query with the one line "no changes, skipping" printed: no child
  process (staging, commit, push) is started after the status query.
\<close>

theorem sync_clean_tree_no_changes:
  assumes "run_cmd env [''git'', ''status'', ''--porcelain''] (Some repo_dir) DEFAULT_CMD_TIMEOUT
             (announce_repo repo_dir repo_name s) = ((code, [], err), s1)"
  shows "git_commit_push env repo_dir repo_name commit_msg auto_pull s
           = (Inr True, color_print NoChangesSkip YELLOW s1)
         \<and> cwds_since s1 (snd (git_commit_push env repo_dir repo_name commit_msg auto_pull s)) = []"
  using assms
  by (simp add: git_commit_push_def git_has_changes_def cwds_since_def color_print_def)

theorem sync_clean_tree_no_changes_witness:
  "fst (run_cmd scripted_env [''git'', ''status'', ''--porcelain''] (Some [''sub''])
          DEFAULT_CMD_TIMEOUT (announce_repo [''sub''] ''hbb_common'' clean_tree)) = (0, [], [])
   \<and> git_commit_push scripted_env [''sub''] ''hbb_common'' ''msg'' True clean_tree
       = (Inr True, color_print NoChangesSkip YELLOW
            (snd (run_cmd scripted_env [''git'', ''status'', ''--porcelain''] (Some [''sub''])
                    DEFAULT_CMD_TIMEOUT (announce_repo [''sub''] ''hbb_common'' clean_tree))))
   \<and> cwds_since
        (snd (run_cmd scripted_env [''git'', ''status'', ''--porcelain''] (Some [''sub''])
                DEFAULT_CMD_TIMEOUT (announce_repo [''sub''] ''hbb_common'' clean_tree)))
        (snd (git_commit_push scripted_env [''sub''] ''hbb_common'' ''msg'' True clean_tree)) = []"
proof -
  let ?r = "run_cmd scripted_env [''git'', ''status'', ''--porcelain''] (Some [''sub''])
              DEFAULT_CMD_TIMEOUT (announce_repo [''sub''] ''hbb_common'' clean_tree)"
  have h: "?r = ((0, [], []), snd ?r)"
    by (simp add: run_cmd_def spawn_def scripted_env_def scripted_run_def announce_repo_def
                  color_print_def clean_tree_def initial_state_def py_strip_def py_isspace_def)
  then have "fst ?r = (0, [], [])"
    by (metis fst_conv)
  with sync_clean_tree_no_changes [OF h, of "''msg''" True] show ?thesis
    by blast
qed

text \<open>
  C9. When the status query exits with a code other than zero, \<open>git_has_changes\<close>
  reports no changes, so \<open>git_commit_push\<close> returns success, and the state it
  returns is the state right after that query with one line printed: no staging,
  commit or push is started. At this interface a failing status command looks like
  a clean tree.
\<close>

theorem sync_status_failure_counts_as_clean:
  assumes "run_cmd env [''git'', ''status'', ''--porcelain''] (Some repo_dir) DEFAULT_CMD_TIMEOUT
             (announce_repo repo_dir repo_name s) = ((code, out, err), s1)"
    and "code \<noteq> 0"
  shows "git_has_changes env repo_dir (announce_repo repo_dir repo_name s) = (False, s1)
         \<and> git_commit_push env repo_dir repo_name commit_msg auto_pull s
             = (Inr True, color_print NoChangesSkip YELLOW s1)
         \<and> cwds_since s1 (snd (git_commit_push env repo_dir repo_name commit_msg auto_pull s)) = []"
  using assms
  by (simp add: git_commit_push_def git_has_changes_def cwds_since_def color_print_def)

theorem sync_status_failure_counts_as_clean_witness:
  "fst (fst (run_cmd scripted_env [''git'', ''status'', ''--porcelain''] (Some [''sub''])
          DEFAULT_CMD_TIMEOUT (announce_repo [''sub''] ''hbb_common'' broken_tree))) = 128
   \<and> git_has_changes scripted_env [''sub''] (announce_repo [''sub''] ''hbb_common'' broken_tree)
       = (False, snd (run_cmd scripted_env [''git'', ''status'', ''--porcelain''] (Some [''sub''])
                        DEFAULT_CMD_TIMEOUT (announce_repo [''sub''] ''hbb_common'' broken_tree)))
   \<and> git_commit_push scripted_env [''sub''] ''hbb_common'' ''msg'' True broken_tree
       = (Inr True, color_print NoChangesSkip YELLOW
            (snd (run_cmd scripted_env [''git'', ''status'', ''--porcelain''] (Some [''sub''])
                    DEFAULT_CMD_TIMEOUT (announce_repo [''sub''] ''hbb_common'' broken_tree))))
   \<and> cwds_since
        (snd (run_cmd scripted_env [''git'', ''status'', ''--porcelain''] (Some [''sub''])
                DEFAULT_CMD_TIMEOUT (announce_repo [''sub''] ''hbb_common'' broken_tree)))
        (snd (git_commit_push scripted_env [''sub''] ''hbb_common'' ''msg'' True broken_tree)) = []"
proof -
  let ?r = "run_cmd scripted_env [''git'', ''status'', ''--porcelain''] (Some [''sub''])
              DEFAULT_CMD_TIMEOUT (announce_repo [''sub''] ''hbb_common'' broken_tree)"
  have h: "?r = ((128, [], ''fatal: not a git repository''), snd ?r)"
    by (simp add: scripted_defs broken_tree_def)
  then have c: "fst (fst ?r) = 128"
    by (metis fst_conv)
  have n: "(128::int) \<noteq> 0"
    by simp
  from sync_status_failure_counts_as_clean [OF h n, of "''msg''" True] c show ?thesis
    by blast
qed

text \<open>
  C4. When the working tree has changes, staging succeeds and the commit exits
  with a code other than zero, \<open>git_commit_push\<close> returns success exactly when
  the marker "nothing to commit" occurs in the commit's error text or in its
  output; for every other such exit it returns failure. Nothing runs after the
  commit in either case.
\<close>

theorem sync_commit_nothing_to_commit:
  assumes "git_has_changes env repo_dir (announce_repo repo_dir repo_name s) = (True, s1)"
    and "run_cmd env [''git'', ''add'', ''.''] (Some repo_dir) DEFAULT_CMD_TIMEOUT
           (color_print (Running ''git add .'') BLUE s1) = ((0, out_add, err_add), s2)"
    and "run_cmd env [''git'', ''commit'', ''-m'', commit_msg] (Some repo_dir) DEFAULT_CMD_TIMEOUT
           (color_print (Running (''git commit -m '' @ [CHR 0x22] @ commit_msg @ [CHR 0x22])) BLUE s2)
         = ((code, out, err), s3)"
    and "code \<noteq> 0"
  shows "git_commit_push env repo_dir repo_name commit_msg auto_pull s =
           (if py_in ''nothing to commit'' err \<or> py_in ''nothing to commit'' out
            then (Inr True, color_print NothingToCommit YELLOW s3)
            else (Inr False, color_print (GitCommitFailed err) RED s3))"
  using assms by (simp add: git_commit_push_def)

theorem sync_commit_nothing_to_commit_witness:
  "fst (git_has_changes scripted_env [''sub''] (announce_repo [''sub''] ''hbb_common'' nothing_staged))
   \<and> fst (fst (run_cmd scripted_env [''git'', ''commit'', ''-m'', ''msg''] (Some [''sub''])
          DEFAULT_CMD_TIMEOUT
          (color_print (Running (''git commit -m '' @ [CHR 0x22] @ ''msg'' @ [CHR 0x22])) BLUE
            (snd (run_cmd scripted_env [''git'', ''add'', ''.''] (Some [''sub'']) DEFAULT_CMD_TIMEOUT
               (color_print (Running ''git add .'') BLUE
                  (snd (git_has_changes scripted_env [''sub'']
                          (announce_repo [''sub''] ''hbb_common'' nothing_staged))))))))) = 1
   \<and> fst (git_commit_push scripted_env [''sub''] ''hbb_common'' ''msg'' True nothing_staged) = Inr True"
proof -
  let ?h = "git_has_changes scripted_env [''sub''] (announce_repo [''sub''] ''hbb_common'' nothing_staged)"
  let ?a = "run_cmd scripted_env [''git'', ''add'', ''.''] (Some [''sub'']) DEFAULT_CMD_TIMEOUT
              (color_print (Running ''git add .'') BLUE (snd ?h))"
  let ?c = "run_cmd scripted_env [''git'', ''commit'', ''-m'', ''msg''] (Some [''sub''])
              DEFAULT_CMD_TIMEOUT
              (color_print (Running (''git commit -m '' @ [CHR 0x22] @ ''msg'' @ [CHR 0x22])) BLUE (snd ?a))"
  have h: "?h = (True, snd ?h)"
    by (simp add: git_has_changes_def scripted_defs nothing_staged_def)
  have a: "?a = ((0, [], []), snd ?a)"
    by (simp add: git_has_changes_def scripted_defs nothing_staged_def)
  have c: "?c = ((1, ''nothing to commit, working tree clean'', []), snd ?c)"
    by (simp add: git_has_changes_def scripted_defs nothing_staged_def)
  have n: "(1::int) \<noteq> 0"
    by simp
  have m: "py_in ''nothing to commit'' ''nothing to commit, working tree clean''"
    by simp
  from h have h1: "fst ?h" by (metis fst_conv)
  from c have c1: "fst (fst ?c) = 1" by (metis fst_conv)
  from sync_commit_nothing_to_commit [OF h a c n, where auto_pull = True] m h1 c1
  show ?thesis
    by simp
qed

text \<open>
  C10, as the claim states it, fails: the exit code of the fetch is never looked
  at. Here the fetch exits with 128, the count of upstream commits then prints 3,
  the remote is reported ahead, and the sync runs the rebase-pull.
\<close>

theorem remote_ahead_after_failed_fetch:
  "fst (fst (run_cmd scripted_env [''git'', ''fetch''] (Some [''sub'']) 60 fetch_fails)) = 128
   \<and> fst (git_check_remote_ahead scripted_env [''sub''] fetch_fails) = Inr True
   \<and> Subprocess [''git'', ''pull'', ''--rebase''] (Some [''sub'']) True (Some 120)
       \<in> set (trace (snd (pull_push_step scripted_env [''sub''] True fetch_fails)))"
  by (simp add: pull_push_step_def git_check_remote_ahead_def git_pull_def push_step_def
        scripted_defs fetch_fails_def py_isdigit_def py_isdigit_char_def py_int_def
        DEFAULT_CMD_TIMEOUT_def GIT_PUSH_TIMEOUT_def)

text \<open>
  C10, amended. Whatever the fetch did, when the count of upstream commits exits
  with a code other than zero or prints something that is not a digit string, the
  remote is reported not ahead, and the sync (with \<open>auto_pull\<close>) skips the
  rebase-pull and goes on with the push from the state the count left.
\<close>

theorem remote_ahead_undetected_goes_to_push:
  assumes "run_cmd env [''git'', ''fetch''] (Some repo_dir) 60 s = (fetched, s1)"
    and "run_cmd env [''git'', ''rev-list'', ''HEAD..@'' @ ''{u}'', ''--count''] (Some repo_dir)
           DEFAULT_CMD_TIMEOUT s1 = ((code, out, err), s2)"
    and "code \<noteq> 0 \<or> \<not> py_isdigit out"
  shows "git_check_remote_ahead env repo_dir s = (Inr False, s2)
         \<and> pull_push_step env repo_dir True s = push_step env repo_dir s2"
  using assms by (auto simp: git_check_remote_ahead_def pull_push_step_def)

theorem remote_ahead_undetected_goes_to_push_witness:
  "fst (fst (run_cmd scripted_env [''git'', ''rev-list'', ''HEAD..@'' @ ''{u}'', ''--count'']
          (Some [''sub'']) DEFAULT_CMD_TIMEOUT
          (snd (run_cmd scripted_env [''git'', ''fetch''] (Some [''sub'']) 60 no_upstream)))) = 128
   \<and> fst (git_check_remote_ahead scripted_env [''sub''] no_upstream) = Inr False
   \<and> pull_push_step scripted_env [''sub''] True no_upstream
       = push_step scripted_env [''sub'']
           (snd (run_cmd scripted_env [''git'', ''rev-list'', ''HEAD..@'' @ ''{u}'', ''--count'']
              (Some [''sub'']) DEFAULT_CMD_TIMEOUT
              (snd (run_cmd scripted_env [''git'', ''fetch''] (Some [''sub'']) 60 no_upstream))))"
proof -
  let ?f = "run_cmd scripted_env [''git'', ''fetch''] (Some [''sub'']) 60 no_upstream"
  let ?c = "run_cmd scripted_env [''git'', ''rev-list'', ''HEAD..@'' @ ''{u}'', ''--count'']
              (Some [''sub'']) DEFAULT_CMD_TIMEOUT (snd ?f)"
  have f: "?f = (fst ?f, snd ?f)"
    by simp
  have c: "?c = ((128, [], ''fatal: no upstream configured''), snd ?c)"
    by (simp add: scripted_defs no_upstream_def)
  have n: "(128::int) \<noteq> 0 \<or> \<not> py_isdigit []"
    by simp
  from c have c1: "fst (fst ?c) = 128" by (metis fst_conv)
  from remote_ahead_undetected_goes_to_push [OF f c n] c1 show ?thesis
    by simp
qed

section \<open>Properties of the commands\<close>

text \<open>
  C8. When the checks of \<open>gh\<close> pass and the listing of failed runs (limit 1)
  exits with 0 and decodes to an empty list (or any other false value), \<open>cmd_fail\<close>
  prints the line "no failed runs found", returns 0, and starts no child process
  after the listing: the log is not fetched.
\<close>

theorem fail_without_failed_run:
  assumes "check_gh_installed env s = (Inr u, s1)"
    and "run_cmd env run_list_failed (Some (RS_CLIENT_DIR env)) DEFAULT_CMD_TIMEOUT
           (color_print SearchingFailure HEADER s1) = ((0, out, err), s2)"
    and "json_loads env out = Some runs"
    and "\<not> truthy runs"
  shows "cmd_fail env a s = (Inr 0, color_print NoFailedRuns GREEN s2)
         \<and> cwds_since s2 (snd (cmd_fail env a s)) = []"
  using assms by (simp add: cmd_fail_def cwds_since_def color_print_def)

theorem fail_without_failed_run_witness:
  "fst (check_gh_installed scripted_env no_failed_runs) = Inr ()
   \<and> fst (run_cmd scripted_env run_list_failed (Some (RS_CLIENT_DIR scripted_env))
            DEFAULT_CMD_TIMEOUT
            (color_print SearchingFailure HEADER (snd (check_gh_installed scripted_env no_failed_runs))))
       = (0, ''[]'', [])
   \<and> json_loads scripted_env ''[]'' = Some (JArr [])
   \<and> \<not> truthy (JArr [])
   \<and> cmd_fail scripted_env plain_args no_failed_runs
       = (Inr 0, color_print NoFailedRuns GREEN
            (snd (run_cmd scripted_env run_list_failed (Some (RS_CLIENT_DIR scripted_env))
                    DEFAULT_CMD_TIMEOUT
                    (color_print SearchingFailure HEADER
                       (snd (check_gh_installed scripted_env no_failed_runs))))))
   \<and> cwds_since
        (snd (run_cmd scripted_env run_list_failed (Some (RS_CLIENT_DIR scripted_env))
                DEFAULT_CMD_TIMEOUT
                (color_print SearchingFailure HEADER
                   (snd (check_gh_installed scripted_env no_failed_runs)))))
        (snd (cmd_fail scripted_env plain_args no_failed_runs)) = []"
proof -
  let ?g = "check_gh_installed scripted_env no_failed_runs"
  let ?q = "run_cmd scripted_env run_list_failed (Some (RS_CLIENT_DIR scripted_env))
              DEFAULT_CMD_TIMEOUT (color_print SearchingFailure HEADER (snd ?g))"
  have g: "?g = (Inr (), snd ?g)"
    by (simp add: check_gh_installed_def scripted_defs no_failed_runs_def)
  have q: "?q = ((0, ''[]'', []), snd ?q)"
    by (simp add: check_gh_installed_def scripted_defs no_failed_runs_def)
  have j: "json_loads scripted_env ''[]'' = Some (JArr [])"
    by (simp add: scripted_env_def decode_listing_def)
  have e: "\<not> truthy (JArr [])"
    by simp
  from g have g1: "fst ?g = Inr ()" by (metis fst_conv)
  from q have q1: "fst ?q = (0, ''[]'', [])" by (metis fst_conv)
  from fail_without_failed_run [OF g q j e, of plain_args] g1 q1 j e show ?thesis
    by blast
qed

text \<open>
  C7, as the claim states it, fails: the generated tag has no hyphen between month
  and day. At 2026-11-03 20:12 the tag is 2026-1103-2012, while the format
  YYYY-MM-DD-HHMM gives 2026-11-03-2012.
\<close>

theorem tag_format_has_no_hyphen_in_date:
  "get_tag_timestamp scripted_env (initial_state 0 []) = ''2026-1103-2012''
   \<and> strftime ''%Y-%m-%d-%H%M'' (localtime scripted_env (now (initial_state 0 []))) = ''2026-11-03-2012''
   \<and> get_tag_timestamp scripted_env (initial_state 0 [])
       \<noteq> strftime ''%Y-%m-%d-%H%M'' (localtime scripted_env (now (initial_state 0 [])))"
  by code_simp

text \<open>
  C7, amended. When the build command gets no tag (none, or the empty string) and
  its checks and the push succeed, the tag is the local time at that moment as
  year, hyphen, two-digit month and day run together, hyphen, two-digit hour and
  minute run together (\<open>%Y-%m%d-%H%M\<close>); the next thing the command does after
  four printed lines is the trigger of the workflow (simulated under dry-run),
  whose last argument is \<open>upload-tag=\<close> followed by that tag unchanged.
\<close>

theorem build_tag_is_timestamp:
  assumes "check_gh_installed env (s\<lparr>DRY_RUN := dry_run a\<rparr>) = (Inr u, s1)"
    and "check_repo_exists env s1 = (Inr u', s2)"
    and "cmd_push env a (color_print Step1Commit HEADER s2) = (Inr 0, s3)"
    and "tag a = None \<or> tag a = Some []"
  shows "get_tag_timestamp env s3 =
           show_nat (year (localtime env (now s3))) @ ''-'' @
           pad2 (month (localtime env (now s3))) @ pad2 (day (localtime env (now s3))) @ ''-'' @
           pad2 (hour (localtime env (now s3))) @ pad2 (minute (localtime env (now s3)))
         \<and> take (length (trace s3) + 5) (trace (snd (cmd_build env a s))) =
             trace s3 @
             [ColorPrint (Step2Tag (get_tag_timestamp env s3)) HEADER,
              ColorPrint Step3Trigger HEADER,
              ColorPrint (Text (''Workflow: '' @ WORKFLOW_FILE)) CYAN,
              ColorPrint (Running (py_join '' '' (workflow_run (get_tag_timestamp env s3)))) BLUE,
              if dry_run a
              then ColorPrint (DryRunWouldExec (py_join '' '' (workflow_run (get_tag_timestamp env s3))))
                     YELLOW
              else Subprocess (workflow_run (get_tag_timestamp env s3)) (Some (RS_CLIENT_DIR env)) True
                     (Some DEFAULT_CMD_TIMEOUT)]
         \<and> last (workflow_run (get_tag_timestamp env s3)) = ''upload-tag='' @ get_tag_timestamp env s3"
proof -
  let ?t = "get_tag_timestamp env s3"
  let ?r = "run_cmd env (workflow_run ?t) (Some (RS_CLIENT_DIR env)) DEFAULT_CMD_TIMEOUT
              (announce_trigger ?t s3)"
  obtain code out err s4 where r: "?r = ((code, out, err), s4)"
    by (metis prod_cases3 surj_pair)
  have t: "or_else (tag a) ?t = ?t"
    using assms(4) by (auto simp: or_else_def)
  have d: "DRY_RUN s3 = dry_run a"
    using assms(3) by (rule DRY_RUN_after_cmd_push)
  have tr4: "trace s4 = trace s3 @
             [ColorPrint (Step2Tag ?t) HEADER,
              ColorPrint Step3Trigger HEADER,
              ColorPrint (Text (''Workflow: '' @ WORKFLOW_FILE)) CYAN,
              ColorPrint (Running (py_join '' '' (workflow_run ?t))) BLUE,
              if dry_run a
              then ColorPrint (DryRunWouldExec (py_join '' '' (workflow_run ?t))) YELLOW
              else Subprocess (workflow_run ?t) (Some (RS_CLIENT_DIR env)) True
                     (Some DEFAULT_CMD_TIMEOUT)]"
    using trace_run_cmd [OF r] d by (simp add: announce_trigger_def color_print_def)
  have p: "prefix (trace s4) (trace (snd (cmd_build env a s)))"
  proof (cases "code = 0")
    case False
    with assms r t show ?thesis
      by (simp add: cmd_build_def color_print_def)
  next
    case True
    obtain x s5 where c: "confirm_start env ?t s4 = (x, s5)"
      by (cases "confirm_start env ?t s4")
    have "frame UNIV s4 s5"
      using frame_confirm_start [OF c _ frame_refl] by simp
    then have "prefix (trace s4) (trace s5)"
      by (rule frame_prefix)
    then have "prefix (trace s4) (trace (color_print (MonitorHint (script_name env)) YELLOW s5))"
      by (simp add: color_print_def)
    with assms r t c True \<open>prefix (trace s4) (trace s5)\<close> show ?thesis
      by (cases x) (simp_all add: cmd_build_def)
  qed
  have "take (length (trace s3) + 5) (trace (snd (cmd_build env a s))) = trace s4"
    using p by (rule take_of_prefix) (simp add: tr4)
  with tr4 show ?thesis
    by (simp add: get_tag_timestamp_format workflow_run_def)
qed

theorem build_tag_is_timestamp_witness:
  "check_gh_installed (idle_remote_env ''[]'')
      ((initial_state 0 ())\<lparr>DRY_RUN := dry_run plain_args\<rparr>) = (Inr (), idle_gh ''[]'')
   \<and> check_repo_exists (idle_remote_env ''[]'') (idle_gh ''[]'') = (Inr (), idle_checked ''[]'')
   \<and> cmd_push (idle_remote_env ''[]'') plain_args
        (color_print Step1Commit HEADER (idle_checked ''[]'')) = (Inr 0, idle_pushed ''[]'')
   \<and> tag plain_args = None
   \<and> last (workflow_run (get_tag_timestamp (idle_remote_env ''[]'') (idle_pushed ''[]'')))
       = ''upload-tag='' @ get_tag_timestamp (idle_remote_env ''[]'') (idle_pushed ''[]'')"
proof -
  have t: "tag plain_args = None \<or> tag plain_args = Some []"
    by (simp add: plain_args_def)
  have t': "tag plain_args = None"
    by (simp add: plain_args_def)
  from build_tag_is_timestamp [OF idle_gh idle_checked idle_pushed t, of "''[]''"]
    idle_gh [of "''[]''"] idle_checked [of "''[]''"] idle_pushed [of "''[]''"] t'
  show ?thesis
    by blast
qed

text \<open>
  C1. In \<open>cmd_push\<close>, once the checks have passed, the sync of the submodule
  \<open>hbb_common\<close> comes first: its child processes all run in the submodule's
  directory, and every child process of the superproject's directory comes after
  it. When that first sync returns failure (a rejected push included), the command
  returns 1 from the state the sync ended in, with one line printed: no child
  process is started any more, so the superproject's sync is never attempted.
\<close>

theorem push_submodule_first_and_stops:
  assumes "push_preflight env a s = (Inr commit_msg, s1)"
    and "git_commit_push env (HBB_COMMON_DIR env) ''hbb_common'' commit_msg True s1 = (Inr ok, s2)"
  shows "prefix (trace s1) (trace s2)
         \<and> set (cwds_since s1 s2) \<subseteq> {Some (HBB_COMMON_DIR env)}
         \<and> prefix (trace s2) (trace (snd (cmd_push env a s)))
         \<and> set (cwds_since s2 (snd (cmd_push env a s))) \<subseteq> {Some (RS_CLIENT_DIR env)}
         \<and> HBB_COMMON_DIR env \<noteq> RS_CLIENT_DIR env
         \<and> (\<not> ok \<longrightarrow> cmd_push env a s = (Inr 1, color_print HbbCommonFailed RED s2)
                    \<and> cwds_since s2 (snd (cmd_push env a s)) = [])"
proof -
  have f1: "frame {Some (HBB_COMMON_DIR env)} s1 s2"
    using frame_git_commit_push [OF assms(2) _ frame_refl] by simp
  have f2: "frame {Some (RS_CLIENT_DIR env)} s2 (snd (cmd_push env a s))"
  proof (cases ok)
    case False
    with assms show ?thesis
      by (simp add: cmd_push_def frame_color_print frame_refl)
  next
    case True
    obtain r3 s3 where g: "git_commit_push env (RS_CLIENT_DIR env) ''rs-client'' commit_msg True s2
        = (r3, s3)"
      by (cases "git_commit_push env (RS_CLIENT_DIR env) ''rs-client'' commit_msg True s2")
    have "frame {Some (RS_CLIENT_DIR env)} s2 s3"
      using frame_git_commit_push [OF g _ frame_refl] by simp
    with assms g True show ?thesis
      by (cases r3) (simp_all add: cmd_push_def frame_color_print)
  qed
  have d: "HBB_COMMON_DIR env \<noteq> RS_CLIENT_DIR env"
    by (simp add: HBB_COMMON_DIR_def)
  have e: "\<not> ok \<longrightarrow> cmd_push env a s = (Inr 1, color_print HbbCommonFailed RED s2)
                    \<and> cwds_since s2 (snd (cmd_push env a s)) = []"
    using assms by (simp add: cmd_push_def cwds_since_def color_print_def)
  from f1 have p1: "prefix (trace s1) (trace s2)"
    and c1: "set (cwds_since s1 s2) \<subseteq> {Some (HBB_COMMON_DIR env)}"
    by (simp_all add: frame_def)
  from f2 have p2: "prefix (trace s2) (trace (snd (cmd_push env a s)))"
    and c2: "set (cwds_since s2 (snd (cmd_push env a s))) \<subseteq> {Some (RS_CLIENT_DIR env)}"
    by (simp_all add: frame_def)
  from p1 c1 p2 c2 d e show ?thesis
    by blast
qed

theorem push_submodule_first_and_stops_witness:
  "push_preflight scripted_env sync_args rejected_push = (Inr ''sync'', rejected_preflight)
   \<and> git_commit_push scripted_env (HBB_COMMON_DIR scripted_env) ''hbb_common'' ''sync'' True
       rejected_preflight = (Inr False, rejected_synced)
   \<and> cmd_push scripted_env sync_args rejected_push
       = (Inr 1, color_print HbbCommonFailed RED rejected_synced)
   \<and> cwds_since rejected_synced (snd (cmd_push scripted_env sync_args rejected_push)) = []
   \<and> world (snd (cmd_push scripted_env sync_args rejected_push))
       = [(Completed 0 '' M libs/hbb_common'' [], 1)]"
proof -
  from push_submodule_first_and_stops [OF rejected_preflight rejected_synced]
  have "cmd_push scripted_env sync_args rejected_push
          = (Inr 1, color_print HbbCommonFailed RED rejected_synced)
        \<and> cwds_since rejected_synced (snd (cmd_push scripted_env sync_args rejected_push)) = []"
    by blast
  with rejected_preflight rejected_synced rejected_synced_world show ?thesis
    by (simp add: color_print_def cwds_since_def)
qed

text \<open>
  C2. When the flag \<open>DRY_RUN\<close> is set, \<open>run_cmd\<close> and \<open>run_cmd_live\<close> start no
  child process and return the made-up success (code 0, and for \<open>run_cmd\<close> the
  output \<open>[dry-run]\<close>), having printed one line. Every command then only prints:
  \<open>cmd_watch\<close> and \<open>cmd_fail\<close> when the flag is set, \<open>cmd_push\<close> and
  \<open>cmd_build\<close> when called with \<open>--dry-run\<close> (they set the flag themselves).
  No child process is started, nothing sleeps, the outside world and the clock stay
  as they were, and the banner of the wait for the workflow run is never printed:
  the build command skips the confirmation loop.
\<close>

theorem dry_run_only_prints:
  "(DRY_RUN s \<longrightarrow>
      run_cmd env cmd cwd t s =
        ((0, ''[dry-run]'', []), color_print (DryRunWouldExec (py_join '' '' cmd)) YELLOW s)
      \<and> run_cmd_live env cmd cwd s =
        (0, color_print (DryRunWouldExec (py_join '' '' cmd)) YELLOW s)
      \<and> only_printed s (snd (cmd_watch env a s))
      \<and> only_printed s (snd (cmd_fail env a s)))
   \<and> (dry_run a \<longrightarrow>
      only_printed s (snd (cmd_push env a s)) \<and> only_printed s (snd (cmd_build env a s)))"
proof -
  have w: "only_printed s (snd (cmd_watch env a s))" if "DRY_RUN s"
    using dry_cmd_watch [OF surjective_pairing dry_refl [OF that]] by (simp add: dry_def)
  have f: "only_printed s (snd (cmd_fail env a s))" if "DRY_RUN s"
    using dry_cmd_fail [OF surjective_pairing dry_refl [OF that]] by (simp add: dry_def)
  have o: "dry (s\<lparr>DRY_RUN := True\<rparr>) (s\<lparr>DRY_RUN := True\<rparr>)"
    by (simp add: dry_refl)
  have p: "only_printed s (snd (cmd_push env a s))" if "dry_run a"
    using dry_cmd_push [OF surjective_pairing that o] by (rule only_printed_from_flag)
  have b: "only_printed s (snd (cmd_build env a s))" if "dry_run a"
    using dry_cmd_build [OF surjective_pairing that o] by (rule only_printed_from_flag)
  from w f p b show ?thesis
    by (simp add: run_cmd_dry run_cmd_live_dry)
qed

theorem dry_run_only_prints_witness:
  "DRY_RUN dry_state \<and> dry_run dry_args
   \<and> run_cmd scripted_env [''git'', ''push''] (Some [''sub'']) GIT_PUSH_TIMEOUT dry_state
       = ((0, ''[dry-run]'', []),
          color_print (DryRunWouldExec (py_join '' '' [''git'', ''push''])) YELLOW dry_state)
   \<and> only_printed dry_state (snd (cmd_fail scripted_env dry_args dry_state))
   \<and> only_printed dry_state (snd (cmd_push scripted_env dry_args dry_state))
   \<and> only_printed dry_state (snd (cmd_build scripted_env dry_args dry_state))"
proof -
  have s: "DRY_RUN dry_state"
    by (simp add: dry_state_def)
  have a: "dry_run dry_args"
    by (simp add: dry_args_def)
  from dry_run_only_prints [of dry_state scripted_env "[''git'', ''push'']" "Some [''sub'']"
      GIT_PUSH_TIMEOUT dry_args] s a
  show ?thesis
    by blast
qed

section \<open>Properties of the wait for the workflow run\<close>




text \<open>
  C6, as the claim states it, fails: nothing is recorded before the trigger, so the
  wait cannot tell a new run from an old one. On a remote that lists run 7 as in
  progress before the build command starts and lists nothing newer afterwards, the
  build command returns 0 and reports run 7 as the workflow it started.
\<close>

theorem build_confirms_run_listed_before_trigger:
  "fst (run_cmd (idle_remote_env listing_run7) run_list_latest
          (Some (RS_CLIENT_DIR (idle_remote_env listing_run7))) DEFAULT_CMD_TIMEOUT
          (initial_state 0 ())) = (0, listing_run7, [])
   \<and> listed_active (idle_remote_env listing_run7) listing_run7 ''7''
   \<and> fst (cmd_build (idle_remote_env listing_run7) plain_args (initial_state 0 ())) = Inr 0
   \<and> ColorPrint (WorkflowStarted ''7'') GREEN
       \<in> set (trace (snd (cmd_build (idle_remote_env listing_run7) plain_args (initial_state 0 ()))))"
  by code_simp

text \<open>
  C6, amended. The wait returns a run id only from a poll whose listing exited
  with 0 and showed, as the latest run, one that is queued or in progress at that
  moment: the id is that run's \<open>databaseId\<close>, and the wait ends right after that
  poll. Whether the run was there before the trigger plays no part: when the budget
  is positive and the first poll shows such a run, its id is returned.
\<close>

theorem wait_confirms_latest_listed_run:
  "(wait_for_workflow_start env max_wait s = (Inr (Some run_id), s') \<longrightarrow>
      (\<exists>p out err q.
          run_cmd env run_list_latest (Some (RS_CLIENT_DIR env)) DEFAULT_CMD_TIMEOUT p
            = ((0, out, err), q)
          \<and> listed_active env out run_id
          \<and> s' = color_print (WorkflowStarted run_id) GREEN q))
   \<and> (0 < max_wait
        \<and> run_cmd env run_list_latest (Some (RS_CLIENT_DIR env)) DEFAULT_CMD_TIMEOUT
              (color_print (WaitingForWorkflow max_wait) CYAN s) = ((0, out0, err0), s0)
        \<and> listed_active env out0 id0
      \<longrightarrow> wait_for_workflow_start env max_wait s
            = (Inr (Some id0), color_print (WorkflowStarted id0) GREEN s0))"
proof -
  let ?s = "color_print (WaitingForWorkflow max_wait) CYAN s"
  have one: "\<exists>p out err q.
          run_cmd env run_list_latest (Some (RS_CLIENT_DIR env)) DEFAULT_CMD_TIMEOUT p
            = ((0, out, err), q)
          \<and> listed_active env out run_id
          \<and> s' = color_print (WorkflowStarted run_id) GREEN q"
    if w: "wait_for_workflow_start env max_wait s = (Inr (Some run_id), s')"
  proof -
    obtain r s2 where l: "wait_loop env (now ?s) max_wait ?s = (r, s2)"
      by (cases "wait_loop env (now ?s) max_wait ?s")
    with w have "r = Inr (Some run_id) \<and> s2 = s'"
      by (auto simp: wait_for_workflow_start_def Let_def split: sum.splits option.splits)
    with wait_loop_some [OF l, of run_id] obtain p
      where "poll_runs env p = (Inr (Some run_id), s')"
      by blast
    from poll_runs_some [OF this] show ?thesis
      by blast
  qed
  have two: "wait_for_workflow_start env max_wait s
            = (Inr (Some id0), color_print (WorkflowStarted id0) GREEN s0)"
    if m: "0 < max_wait"
      and r: "run_cmd env run_list_latest (Some (RS_CLIENT_DIR env)) DEFAULT_CMD_TIMEOUT ?s
                = ((0, out0, err0), s0)"
      and a: "listed_active env out0 id0"
  proof -
    from poll_runs_active [OF r a] m
    have "wait_loop env (now ?s) max_wait ?s
            = (Inr (Some id0), color_print (WorkflowStarted id0) GREEN s0)"
      by (simp add: wait_loop.simps [of env "now ?s" max_wait ?s])
    then show ?thesis
      by (simp add: wait_for_workflow_start_def Let_def)
  qed
  from one two show ?thesis
    by blast
qed

theorem wait_confirms_latest_listed_run_witness:
  "(0::int) < 30
   \<and> listed_active (idle_remote_env listing_run7) listing_run7 ''7''
   \<and> wait_for_workflow_start (idle_remote_env listing_run7) 30 (initial_state 0 ())
       = (Inr (Some ''7''),
          color_print (WorkflowStarted ''7'') GREEN
            (snd (run_cmd (idle_remote_env listing_run7) run_list_latest
                    (Some (RS_CLIENT_DIR (idle_remote_env listing_run7))) DEFAULT_CMD_TIMEOUT
                    (color_print (WaitingForWorkflow 30) CYAN (initial_state 0 ())))))
   \<and> fst (run_cmd (idle_remote_env listing_run7) run_list_latest
          (Some (RS_CLIENT_DIR (idle_remote_env listing_run7))) DEFAULT_CMD_TIMEOUT
          (color_print (WaitingForWorkflow 30) CYAN (initial_state 0 ()))) = (0, listing_run7, [])"
proof -
  have m: "(0::int) < 30"
    by simp
  note t = wait_confirms_latest_listed_run [where env = "idle_remote_env listing_run7"
      and max_wait = 30 and s = "initial_state 0 ()" and ?out0.0 = listing_run7 and ?err0.0 = "[]"
      and ?id0.0 = "''7''" and run_id = "''7''"
      and ?s0.0 = "snd (run_cmd (idle_remote_env listing_run7) run_list_latest
                    (Some (RS_CLIENT_DIR (idle_remote_env listing_run7))) DEFAULT_CMD_TIMEOUT
                    (color_print (WaitingForWorkflow 30) CYAN (initial_state 0 ())))"
      and s' = "color_print (WorkflowStarted ''7'') GREEN
            (snd (run_cmd (idle_remote_env listing_run7) run_list_latest
                    (Some (RS_CLIENT_DIR (idle_remote_env listing_run7))) DEFAULT_CMD_TIMEOUT
                    (color_print (WaitingForWorkflow 30) CYAN (initial_state 0 ()))))"]
  from t m idle_run7_listing idle_run7_active
  have w: "wait_for_workflow_start (idle_remote_env listing_run7) 30 (initial_state 0 ())
       = (Inr (Some ''7''),
          color_print (WorkflowStarted ''7'') GREEN
            (snd (run_cmd (idle_remote_env listing_run7) run_list_latest
                    (Some (RS_CLIENT_DIR (idle_remote_env listing_run7))) DEFAULT_CMD_TIMEOUT
                    (color_print (WaitingForWorkflow 30) CYAN (initial_state 0 ())))))"
    by blast
  from idle_run7_listing
  have "fst (run_cmd (idle_remote_env listing_run7) run_list_latest
          (Some (RS_CLIENT_DIR (idle_remote_env listing_run7))) DEFAULT_CMD_TIMEOUT
          (color_print (WaitingForWorkflow 30) CYAN (initial_state 0 ()))) = (0, listing_run7, [])"
    by (metis fst_conv)
  with m w idle_run7_active show ?thesis
    by blast
qed

end
